theory Spec2Isabelle
  imports Complex_Main
begin

section \<open>JavaScript numbers\<close>

text \<open>
  The scoring engine (utils/acmCalculator) computes on JavaScript numbers. A number is
  modelled as a finite real or one of the three special values of IEEE arithmetic, so
  that a division by zero and an absent-looking reading (\<open>NaN\<close>) are values of the
  model and not holes in it. Finite arithmetic is exact: the rounding of binary floating
  point and the sign of zero are not modelled (a zero divisor is taken as \<open>+0\<close>, which
  is what \<open>x - x\<close> and a square give).
\<close>

datatype jsnum = Fin real | PosInf | NegInf | NaN

text \<open>Truthiness of a number: \<open>0\<close> and \<open>NaN\<close> are falsy.\<close>

fun truthy :: "jsnum \<Rightarrow> bool" where
  "truthy (Fin x) = (x \<noteq> 0)"
| "truthy PosInf = True"
| "truthy NegInf = True"
| "truthy NaN = False"

text \<open>The relational operators: every comparison with \<open>NaN\<close> is false.\<close>

fun jlt :: "jsnum \<Rightarrow> jsnum \<Rightarrow> bool" where
  "jlt NaN y = False"
| "jlt x NaN = False"
| "jlt (Fin a) (Fin b) = (a < b)"
| "jlt (Fin a) PosInf = True"
| "jlt (Fin a) NegInf = False"
| "jlt PosInf y = False"
| "jlt NegInf NegInf = False"
| "jlt NegInf y = True"

fun jle :: "jsnum \<Rightarrow> jsnum \<Rightarrow> bool" where
  "jle NaN y = False"
| "jle x NaN = False"
| "jle (Fin a) (Fin b) = (a \<le> b)"
| "jle (Fin a) PosInf = True"
| "jle (Fin a) NegInf = False"
| "jle PosInf PosInf = True"
| "jle PosInf y = False"
| "jle NegInf y = True"

definition jgt :: "jsnum \<Rightarrow> jsnum \<Rightarrow> bool" where
  "jgt x y = jlt y x"

definition jge :: "jsnum \<Rightarrow> jsnum \<Rightarrow> bool" where
  "jge x y = jle y x"

text \<open>Arithmetic, with the IEEE rules for the special values.\<close>

fun jneg :: "jsnum \<Rightarrow> jsnum" where
  "jneg (Fin a) = Fin (- a)"
| "jneg PosInf = NegInf"
| "jneg NegInf = PosInf"
| "jneg NaN = NaN"

fun jadd :: "jsnum \<Rightarrow> jsnum \<Rightarrow> jsnum" where
  "jadd NaN y = NaN"
| "jadd x NaN = NaN"
| "jadd (Fin a) (Fin b) = Fin (a + b)"
| "jadd (Fin a) y = y"
| "jadd x (Fin b) = x"
| "jadd PosInf PosInf = PosInf"
| "jadd NegInf NegInf = NegInf"
| "jadd PosInf NegInf = NaN"
| "jadd NegInf PosInf = NaN"

definition jsub :: "jsnum \<Rightarrow> jsnum \<Rightarrow> jsnum" where
  "jsub x y = jadd x (jneg y)"

text \<open>The sign of a value that is neither \<open>NaN\<close> nor zero decides an infinite product.\<close>

fun jmul :: "jsnum \<Rightarrow> jsnum \<Rightarrow> jsnum" where
  "jmul NaN y = NaN"
| "jmul x NaN = NaN"
| "jmul (Fin a) (Fin b) = Fin (a * b)"
| "jmul (Fin a) PosInf = (if a = 0 then NaN else if 0 < a then PosInf else NegInf)"
| "jmul (Fin a) NegInf = (if a = 0 then NaN else if 0 < a then NegInf else PosInf)"
| "jmul PosInf (Fin b) = (if b = 0 then NaN else if 0 < b then PosInf else NegInf)"
| "jmul NegInf (Fin b) = (if b = 0 then NaN else if 0 < b then NegInf else PosInf)"
| "jmul PosInf PosInf = PosInf"
| "jmul NegInf NegInf = PosInf"
| "jmul PosInf NegInf = NegInf"
| "jmul NegInf PosInf = NegInf"

fun jdiv :: "jsnum \<Rightarrow> jsnum \<Rightarrow> jsnum" where
  "jdiv NaN y = NaN"
| "jdiv x NaN = NaN"
| "jdiv (Fin a) (Fin b) =
     (if b = 0 then (if a = 0 then NaN else if 0 < a then PosInf else NegInf)
      else Fin (a / b))"
| "jdiv (Fin a) y = Fin 0"
| "jdiv PosInf (Fin b) = (if 0 \<le> b then PosInf else NegInf)"
| "jdiv NegInf (Fin b) = (if 0 \<le> b then NegInf else PosInf)"
| "jdiv x y = NaN"

fun jabs :: "jsnum \<Rightarrow> jsnum" where
  "jabs (Fin a) = Fin \<bar>a\<bar>"
| "jabs PosInf = PosInf"
| "jabs NegInf = PosInf"
| "jabs NaN = NaN"

text \<open>\<open>Math.min\<close> and \<open>Math.max\<close> return \<open>NaN\<close> as soon as one argument is \<open>NaN\<close>.\<close>

fun jmin :: "jsnum \<Rightarrow> jsnum \<Rightarrow> jsnum" where
  "jmin NaN y = NaN"
| "jmin x NaN = NaN"
| "jmin x y = (if jle x y then x else y)"

fun jmax :: "jsnum \<Rightarrow> jsnum \<Rightarrow> jsnum" where
  "jmax NaN y = NaN"
| "jmax x NaN = NaN"
| "jmax x y = (if jle x y then y else x)"

text \<open>\<open>Math.round\<close>: the nearest integer, a tie going up.\<close>

fun jround :: "jsnum \<Rightarrow> jsnum" where
  "jround (Fin a) = Fin (of_int \<lfloor>a + 1 / 2\<rfloor>)"
| "jround x = x"

section \<open>Data model\<close>

text \<open>
  \<open>HealthData\<close> (hooks/useHealthData): every reading is \<open>number | null\<close>, the
  biological sex one of three literals or \<open>null\<close>. \<open>None\<close> is \<open>null\<close>.
\<close>

datatype Sex = Male | Female | Other

record HealthData =
  stepCount :: "jsnum option"
  heartRate :: "jsnum option"
  weight :: "jsnum option"
  height :: "jsnum option"
  bloodPressureSystolic :: "jsnum option"
  bloodPressureDiastolic :: "jsnum option"
  bmi :: "jsnum option"
  restingHeartRate :: "jsnum option"
  activeEnergyBurned :: "jsnum option"
  age :: "jsnum option"
  biologicalSex :: "Sex option"

datatype RiskLevel = Low | Moderate | High | VeryHigh

record Breakdown =
  cardiovascular :: jsnum
  metabolic :: jsnum
  activity :: jsnum
  lifestyle :: jsnum

record ACMScore =
  overall :: jsnum
  breakdown :: Breakdown
  riskLevel :: RiskLevel
  recommendations :: "string list"

text \<open>
  A reading used as a condition (\<open>if (data.bmi)\<close>): \<open>null\<close>, \<open>0\<close> and \<open>NaN\<close>
  are falsy. After such a test the reading is a number; \<open>num\<close> reads it, and gives
  \<open>NaN\<close> where there is none, a value on which no branch of the engine fires.
\<close>

fun present :: "jsnum option \<Rightarrow> bool" where
  "present None = False"
| "present (Some x) = truthy x"

fun num :: "jsnum option \<Rightarrow> jsnum" where
  "num None = NaN"
| "num (Some x) = x"

text \<open>The closing line of every sub-scorer: \<open>Math.max(0, Math.min(100, score))\<close>.\<close>

definition clamp100 :: "jsnum \<Rightarrow> jsnum" where
  "clamp100 score = jmax (Fin 0) (jmin (Fin 100) score)"

section \<open>Cardiovascular sub-scorer\<close>

text \<open>
  \<open>calculateCardiovascularScore\<close>. The two blocks that update \<open>score\<close> are written as
  functions from the score before to the score after, in the order of the source.
\<close>

definition restingHeartRateBlock :: "HealthData \<Rightarrow> jsnum \<Rightarrow> jsnum" where
  "restingHeartRateBlock d score =
     (if present (restingHeartRate d) then
        (let rhr = num (restingHeartRate d);
             score1 = (if jge rhr (Fin 100) then jsub score (Fin 25)
                       else if jge rhr (Fin 80) then jsub score (Fin 15)
                       else if jge rhr (Fin 70) then jsub score (Fin 8)
                       else if jge rhr (Fin 60) then jsub score (Fin 2)
                       else score)
         in if jge rhr (Fin 40) \<and> jle rhr (Fin 55) then jadd score1 (Fin 5) else score1)
      else score)"

definition heartRateBlock :: "HealthData \<Rightarrow> jsnum \<Rightarrow> jsnum" where
  "heartRateBlock d score =
     (if present (heartRate d) \<and> present (restingHeartRate d) then
        (let heartRateVariability = jabs (jsub (num (heartRate d)) (num (restingHeartRate d)))
         in if jgt heartRateVariability (Fin 30) then jsub score (Fin 10) else score)
      else score)"

definition calculateCardiovascularScore :: "HealthData \<Rightarrow> jsnum" where
  "calculateCardiovascularScore d =
     clamp100 (heartRateBlock d (restingHeartRateBlock d (Fin 100)))"

section \<open>Metabolic sub-scorer\<close>

text \<open>
  \<open>calculateMetabolicScore\<close>. The first block scores the BMI, read from the snapshot or
  derived from weight and height; the second compares the weight with an ideal weight.
  With a height of 100 cm the ideal weight is zero and the division gives an infinity.
\<close>

definition bmiBlock :: "HealthData \<Rightarrow> jsnum \<Rightarrow> jsnum" where
  "bmiBlock d score =
     (if present (bmi d) then
        (let b = num (bmi d)
         in if jlt b (Fin 18.5) then jsub score (Fin 15)
            else if jge b (Fin 30) then jsub score (Fin 30)
            else if jge b (Fin 25) then jsub score (Fin 15)
            else if jge b (Fin 18.5) \<and> jle b (Fin 24.9) then jadd score (Fin 10)
            else score)
      else if present (weight d) \<and> present (height d) then
        (let heightInM = jdiv (num (height d)) (Fin 100);
             calculatedBMI = jdiv (num (weight d)) (jmul heightInM heightInM)
         in if jlt calculatedBMI (Fin 18.5) then jsub score (Fin 15)
            else if jge calculatedBMI (Fin 30) then jsub score (Fin 30)
            else if jge calculatedBMI (Fin 25) then jsub score (Fin 15)
            else jadd score (Fin 10))
      else score)"

definition idealWeight :: "HealthData \<Rightarrow> jsnum" where
  "idealWeight d =
     (let heightInM = jdiv (num (height d)) (Fin 100)
      in if biologicalSex d = Some Male
         then jmul (jmul (jsub heightInM (Fin 1)) (Fin 100)) (Fin 0.9)
         else jmul (jmul (jsub heightInM (Fin 1)) (Fin 100)) (Fin 0.85))"

definition weightBlock :: "HealthData \<Rightarrow> jsnum \<Rightarrow> jsnum" where
  "weightBlock d score =
     (if present (weight d) \<and> present (height d) \<and> present (age d)
         \<and> biologicalSex d \<noteq> None then
        (let weightDifference =
               jdiv (jabs (jsub (num (weight d)) (idealWeight d))) (idealWeight d)
         in if jgt weightDifference (Fin 0.3) then jsub score (Fin 20)
            else if jgt weightDifference (Fin 0.15) then jsub score (Fin 10)
            else score)
      else score)"

definition calculateMetabolicScore :: "HealthData \<Rightarrow> jsnum" where
  "calculateMetabolicScore d = clamp100 (weightBlock d (bmiBlock d (Fin 100)))"

section \<open>Activity sub-scorer\<close>

text \<open>
  \<open>calculateActivityScore\<close>. Steps and active energy are tested with \<open>!== null\<close>,
  so a reading of zero is scored. Both chains are first-match chains, in the literal
  order of the source.
\<close>

definition stepBlock :: "HealthData \<Rightarrow> jsnum \<Rightarrow> jsnum" where
  "stepBlock d score =
     (case stepCount d of
        None \<Rightarrow> score
      | Some steps \<Rightarrow>
          if jlt steps (Fin 3000) then jsub score (Fin 40)
          else if jlt steps (Fin 5000) then jsub score (Fin 25)
          else if jlt steps (Fin 7000) then jsub score (Fin 10)
          else if jge steps (Fin 10000) then jadd score (Fin 15)
          else if jge steps (Fin 12000) then jadd score (Fin 20)
          else score)"

definition targetCalories :: "HealthData \<Rightarrow> jsnum" where
  "targetCalories d =
     (if present (age d) \<and> biologicalSex d \<noteq> None then
        (let t = (if jlt (num (age d)) (Fin 30) then Fin 400
                  else if jlt (num (age d)) (Fin 50) then Fin 350
                  else Fin 250)
         in if biologicalSex d = Some Male then jmul t (Fin 1.2) else t)
      else Fin 300)"

definition calorieRatio :: "HealthData \<Rightarrow> jsnum \<Rightarrow> jsnum" where
  "calorieRatio d calories = jdiv calories (targetCalories d)"

definition energyBlock :: "HealthData \<Rightarrow> jsnum \<Rightarrow> jsnum" where
  "energyBlock d score =
     (case activeEnergyBurned d of
        None \<Rightarrow> score
      | Some calories \<Rightarrow>
          if jlt (calorieRatio d calories) (Fin 0.3) then jsub score (Fin 30)
          else if jlt (calorieRatio d calories) (Fin 0.6) then jsub score (Fin 15)
          else if jge (calorieRatio d calories) (Fin 1.2) then jadd score (Fin 15)
          else if jge (calorieRatio d calories) (Fin 1.5) then jadd score (Fin 20)
          else score)"

definition calculateActivityScore :: "HealthData \<Rightarrow> jsnum" where
  "calculateActivityScore d = clamp100 (energyBlock d (stepBlock d (Fin 100)))"

section \<open>Lifestyle sub-scorer\<close>

text \<open>
  \<open>calculateLifestyleScore\<close>: age, sex, and a bonus when at least 80 percent of six
  readings are there and positive. The \<open>forEach\<close> that counts them is a fold.
\<close>

definition ageBlock :: "HealthData \<Rightarrow> jsnum \<Rightarrow> jsnum" where
  "ageBlock d score =
     (if present (age d) then
        (if jge (num (age d)) (Fin 65) then jsub score (Fin 15)
         else if jge (num (age d)) (Fin 50) then jsub score (Fin 8)
         else if jlt (num (age d)) (Fin 25) then jsub score (Fin 5)
         else score)
      else score)"

definition sexBlock :: "HealthData \<Rightarrow> jsnum \<Rightarrow> jsnum" where
  "sexBlock d score = (if biologicalSex d = Some Male then jsub score (Fin 5) else score)"

definition healthMetrics :: "HealthData \<Rightarrow> jsnum option list" where
  "healthMetrics d =
     [stepCount d, heartRate d, weight d, height d, restingHeartRate d, activeEnergyBurned d]"

fun counted :: "jsnum option \<Rightarrow> bool" where
  \<comment> \<open>\<open>metric !== null && metric > 0\<close>\<close>
  "counted None = False"
| "counted (Some x) = jgt x (Fin 0)"

definition dataCompleteness :: "HealthData \<Rightarrow> jsnum" where
  "dataCompleteness d =
     foldl (\<lambda>n metric. if counted metric then jadd n (Fin 1) else n) (Fin 0) (healthMetrics d)"

definition completenessBlock :: "HealthData \<Rightarrow> jsnum \<Rightarrow> jsnum" where
  "completenessBlock d score =
     (let completenessRatio =
            jdiv (dataCompleteness d) (Fin (real (length (healthMetrics d))))
      in if jge completenessRatio (Fin 0.8) then jadd score (Fin 10) else score)"

definition calculateLifestyleScore :: "HealthData \<Rightarrow> jsnum" where
  "calculateLifestyleScore d =
     clamp100 (completenessBlock d (sexBlock d (ageBlock d (Fin 100))))"

section \<open>Aggregation, risk tier and recommendations\<close>

definition applyDemographicAdjustments :: "jsnum \<Rightarrow> HealthData \<Rightarrow> jsnum" where
  "applyDemographicAdjustments score d =
     clamp100
       (if present (age d) then
          (let ageMultiplier = (if jge (num (age d)) (Fin 65) then Fin 0.85
                                else if jge (num (age d)) (Fin 50) then Fin 0.9
                                else if jge (num (age d)) (Fin 30) then Fin 0.95
                                else Fin 1.0)
           in jmul score ageMultiplier)
        else score)"

definition determineRiskLevel :: "jsnum \<Rightarrow> RiskLevel" where
  "determineRiskLevel score =
     (if jge score (Fin 85) then Low
      else if jge score (Fin 70) then Moderate
      else if jge score (Fin 50) then High
      else VeryHigh)"

text \<open>
  The ten advisory strings, as the UTF-8 bytes of the literals of the source (an emoji
  and a Chinese sentence each).
\<close>

definition adviceAerobic :: string where
  \<comment> \<open>line 228: more aerobic exercise, to lower the resting heart rate\<close>
  "adviceAerobic =
     [CHR 0xF0, CHR 0x9F, CHR 0x8F, CHR 0x83, CHR 0xE2, CHR 0x80, CHR 0x8D, CHR 0xE2,
      CHR 0x99, CHR 0x82, CHR 0xEF, CHR 0xB8, CHR 0x8F, CHR 0x20, CHR 0xE5, CHR 0xA2,
      CHR 0x9E, CHR 0xE5, CHR 0x8A, CHR 0xA0, CHR 0xE6, CHR 0x9C, CHR 0x89, CHR 0xE6,
      CHR 0xB0, CHR 0xA7, CHR 0xE8, CHR 0xBF, CHR 0x90, CHR 0xE5, CHR 0x8A, CHR 0xA8,
      CHR 0xEF, CHR 0xBC, CHR 0x8C, CHR 0xE9, CHR 0x99, CHR 0x8D, CHR 0xE4, CHR 0xBD,
      CHR 0x8E, CHR 0xE9, CHR 0x9D, CHR 0x99, CHR 0xE6, CHR 0x81, CHR 0xAF, CHR 0xE5,
      CHR 0xBF, CHR 0x83, CHR 0xE7, CHR 0x8E, CHR 0x87]"

definition adviceMonitorHeart :: string where
  \<comment> \<open>line 230: monitor blood pressure and heart rate regularly\<close>
  "adviceMonitorHeart =
     [CHR 0xE2, CHR 0x9D, CHR 0xA4, CHR 0xEF, CHR 0xB8, CHR 0x8F, CHR 0x20, CHR 0xE5,
      CHR 0xAE, CHR 0x9A, CHR 0xE6, CHR 0x9C, CHR 0x9F, CHR 0xE7, CHR 0x9B, CHR 0x91,
      CHR 0xE6, CHR 0xB5, CHR 0x8B, CHR 0xE8, CHR 0xA1, CHR 0x80, CHR 0xE5, CHR 0x8E,
      CHR 0x8B, CHR 0xE5, CHR 0x92, CHR 0x8C, CHR 0xE5, CHR 0xBF, CHR 0x83, CHR 0xE7,
      CHR 0x8E, CHR 0x87]"

definition adviceWeight :: string where
  \<comment> \<open>line 236: control the weight, keep a healthy BMI\<close>
  "adviceWeight =
     [CHR 0xE2, CHR 0x9A, CHR 0x96, CHR 0xEF, CHR 0xB8, CHR 0x8F, CHR 0x20, CHR 0xE6,
      CHR 0x8E, CHR 0xA7, CHR 0xE5, CHR 0x88, CHR 0xB6, CHR 0xE4, CHR 0xBD, CHR 0x93,
      CHR 0xE9, CHR 0x87, CHR 0x8D, CHR 0xEF, CHR 0xBC, CHR 0x8C, CHR 0xE4, CHR 0xBF,
      CHR 0x9D, CHR 0xE6, CHR 0x8C, CHR 0x81, CHR 0xE5, CHR 0x81, CHR 0xA5, CHR 0xE5,
      CHR 0xBA, CHR 0xB7, CHR 0x42, CHR 0x4D, CHR 0x49]"

definition adviceDiet :: string where
  \<comment> \<open>line 238: a balanced diet, less processed food\<close>
  "adviceDiet =
     [CHR 0xF0, CHR 0x9F, CHR 0xA5, CHR 0x97, CHR 0x20, CHR 0xE6, CHR 0xB3, CHR 0xA8,
      CHR 0xE6, CHR 0x84, CHR 0x8F, CHR 0xE9, CHR 0xA5, CHR 0xAE, CHR 0xE9, CHR 0xA3,
      CHR 0x9F, CHR 0xE5, CHR 0xB9, CHR 0xB3, CHR 0xE8, CHR 0xA1, CHR 0xA1, CHR 0xEF,
      CHR 0xBC, CHR 0x8C, CHR 0xE5, CHR 0x87, CHR 0x8F, CHR 0xE5, CHR 0xB0, CHR 0x91,
      CHR 0xE5, CHR 0x8A, CHR 0xA0, CHR 0xE5, CHR 0xB7, CHR 0xA5, CHR 0xE9, CHR 0xA3,
      CHR 0x9F, CHR 0xE5, CHR 0x93, CHR 0x81]"

definition adviceSteps :: string where
  \<comment> \<open>line 244: more daily steps, aim at 10000 a day\<close>
  "adviceSteps =
     [CHR 0xF0, CHR 0x9F, CHR 0x9A, CHR 0xB6, CHR 0xE2, CHR 0x80, CHR 0x8D, CHR 0xE2,
      CHR 0x99, CHR 0x80, CHR 0xEF, CHR 0xB8, CHR 0x8F, CHR 0x20, CHR 0xE5, CHR 0xA2,
      CHR 0x9E, CHR 0xE5, CHR 0x8A, CHR 0xA0, CHR 0xE6, CHR 0x97, CHR 0xA5, CHR 0xE5,
      CHR 0xB8, CHR 0xB8, CHR 0xE6, CHR 0xAD, CHR 0xA5, CHR 0xE6, CHR 0x95, CHR 0xB0,
      CHR 0xEF, CHR 0xBC, CHR 0x8C, CHR 0xE7, CHR 0x9B, CHR 0xAE, CHR 0xE6, CHR 0xA0,
      CHR 0x87, CHR 0xE6, CHR 0xAF, CHR 0x8F, CHR 0xE5, CHR 0xA4, CHR 0xA9, CHR 0x31,
      CHR 0x30, CHR 0x30, CHR 0x30, CHR 0x30, CHR 0xE6, CHR 0xAD, CHR 0xA5]"

definition adviceStrength :: string where
  \<comment> \<open>line 246: strength training, two or three times a week\<close>
  "adviceStrength =
     [CHR 0xF0, CHR 0x9F, CHR 0x92, CHR 0xAA, CHR 0x20, CHR 0xE5, CHR 0x8A, CHR 0xA0,
      CHR 0xE5, CHR 0x85, CHR 0xA5, CHR 0xE5, CHR 0x8A, CHR 0x9B, CHR 0xE9, CHR 0x87,
      CHR 0x8F, CHR 0xE8, CHR 0xAE, CHR 0xAD, CHR 0xE7, CHR 0xBB, CHR 0x83, CHR 0xEF,
      CHR 0xBC, CHR 0x8C, CHR 0xE6, CHR 0xAF, CHR 0x8F, CHR 0xE5, CHR 0x91, CHR 0xA8,
      CHR 0x32, CHR 0x2D, CHR 0x33, CHR 0xE6, CHR 0xAC, CHR 0xA1]"

definition adviceSleep :: string where
  \<comment> \<open>line 251: enough sleep, seven to nine hours a day\<close>
  "adviceSleep =
     [CHR 0xF0, CHR 0x9F, CHR 0x98, CHR 0xB4, CHR 0x20, CHR 0xE4, CHR 0xBF, CHR 0x9D,
      CHR 0xE8, CHR 0xAF, CHR 0x81, CHR 0xE5, CHR 0x85, CHR 0x85, CHR 0xE8, CHR 0xB6,
      CHR 0xB3, CHR 0xE7, CHR 0x9D, CHR 0xA1, CHR 0xE7, CHR 0x9C, CHR 0xA0, CHR 0xEF,
      CHR 0xBC, CHR 0x8C, CHR 0xE6, CHR 0xAF, CHR 0x8F, CHR 0xE5, CHR 0xA4, CHR 0xA9,
      CHR 0x37, CHR 0x2D, CHR 0x39, CHR 0xE5, CHR 0xB0, CHR 0x8F, CHR 0xE6, CHR 0x97,
      CHR 0xB6]"

definition adviceStress :: string where
  \<comment> \<open>line 252: learn to manage stress\<close>
  "adviceStress =
     [CHR 0xF0, CHR 0x9F, CHR 0xA7, CHR 0x98, CHR 0xE2, CHR 0x80, CHR 0x8D, CHR 0xE2,
      CHR 0x99, CHR 0x80, CHR 0xEF, CHR 0xB8, CHR 0x8F, CHR 0x20, CHR 0xE5, CHR 0xAD,
      CHR 0xA6, CHR 0xE4, CHR 0xB9, CHR 0xA0, CHR 0xE5, CHR 0x8E, CHR 0x8B, CHR 0xE5,
      CHR 0x8A, CHR 0x9B, CHR 0xE7, CHR 0xAE, CHR 0xA1, CHR 0xE7, CHR 0x90, CHR 0x86,
      CHR 0xE6, CHR 0x8A, CHR 0x80, CHR 0xE5, CHR 0xB7, CHR 0xA7]"

definition adviceKeepUp :: string where
  \<comment> \<open>line 257: keep up the healthy lifestyle\<close>
  "adviceKeepUp =
     [CHR 0xF0, CHR 0x9F, CHR 0x8C, CHR 0x9F, CHR 0x20, CHR 0xE7, CHR 0xBB, CHR 0xA7,
      CHR 0xE7, CHR 0xBB, CHR 0xAD, CHR 0xE4, CHR 0xBF, CHR 0x9D, CHR 0xE6, CHR 0x8C,
      CHR 0x81, CHR 0xE5, CHR 0x81, CHR 0xA5, CHR 0xE5, CHR 0xBA, CHR 0xB7, CHR 0xE7,
      CHR 0x9A, CHR 0x84, CHR 0xE7, CHR 0x94, CHR 0x9F, CHR 0xE6, CHR 0xB4, CHR 0xBB,
      CHR 0xE6, CHR 0x96, CHR 0xB9, CHR 0xE5, CHR 0xBC, CHR 0x8F, CHR 0xEF, CHR 0xBC,
      CHR 0x81]"

definition adviceMonitorHealth :: string where
  \<comment> \<open>line 258: monitor the health indicators regularly\<close>
  "adviceMonitorHealth =
     [CHR 0xF0, CHR 0x9F, CHR 0x93, CHR 0x8A, CHR 0x20, CHR 0xE5, CHR 0xAE, CHR 0x9A,
      CHR 0xE6, CHR 0x9C, CHR 0x9F, CHR 0xE7, CHR 0x9B, CHR 0x91, CHR 0xE6, CHR 0xB5,
      CHR 0x8B, CHR 0xE5, CHR 0x81, CHR 0xA5, CHR 0xE5, CHR 0xBA, CHR 0xB7, CHR 0xE6,
      CHR 0x8C, CHR 0x87, CHR 0xE6, CHR 0xA0, CHR 0x87]"

text \<open>
  \<open>generateRecommendations\<close>: each \<open>push\<close> appends to the list built so far;
  \<open>slice(0, 4)\<close> keeps the first four.
\<close>

definition cardiovascularAdvice :: "HealthData \<Rightarrow> Breakdown \<Rightarrow> string list \<Rightarrow> string list" where
  "cardiovascularAdvice d b recs =
     (if jlt (cardiovascular b) (Fin 70) then
        (let recs1 = (if present (restingHeartRate d) \<and> jgt (num (restingHeartRate d)) (Fin 80)
                      then recs @ [adviceAerobic] else recs)
         in recs1 @ [adviceMonitorHeart])
      else recs)"

definition metabolicAdvice :: "HealthData \<Rightarrow> Breakdown \<Rightarrow> string list \<Rightarrow> string list" where
  "metabolicAdvice d b recs =
     (if jlt (metabolic b) (Fin 70) then
        (let recs1 = (if present (bmi d) \<and> jgt (num (bmi d)) (Fin 25)
                      then recs @ [adviceWeight] else recs)
         in recs1 @ [adviceDiet])
      else recs)"

definition activityAdvice :: "HealthData \<Rightarrow> Breakdown \<Rightarrow> string list \<Rightarrow> string list" where
  "activityAdvice d b recs =
     (if jlt (activity b) (Fin 70) then
        (let recs1 = (case stepCount d of
                        None \<Rightarrow> recs
                      | Some steps \<Rightarrow> if jlt steps (Fin 7000) then recs @ [adviceSteps] else recs)
         in recs1 @ [adviceStrength])
      else recs)"

definition lifestyleAdvice :: "Breakdown \<Rightarrow> string list \<Rightarrow> string list" where
  "lifestyleAdvice b recs =
     (if jlt (lifestyle b) (Fin 70) then (recs @ [adviceSleep]) @ [adviceStress] else recs)"

definition genericAdvice :: "string list \<Rightarrow> string list" where
  "genericAdvice recs =
     (if length recs = 0 then (recs @ [adviceKeepUp]) @ [adviceMonitorHealth] else recs)"

definition generateRecommendations :: "HealthData \<Rightarrow> Breakdown \<Rightarrow> string list" where
  "generateRecommendations d b =
     take 4 (genericAdvice (lifestyleAdvice b (activityAdvice d b
               (metabolicAdvice d b (cardiovascularAdvice d b [])))))"

text \<open>\<open>calculateACMScore\<close>, the entry point.\<close>

definition weightedScore :: "HealthData \<Rightarrow> jsnum" where
  "weightedScore d =
     jadd (jadd (jadd (jmul (calculateCardiovascularScore d) (Fin 0.35))
                      (jmul (calculateMetabolicScore d) (Fin 0.25)))
                (jmul (calculateActivityScore d) (Fin 0.25)))
          (jmul (calculateLifestyleScore d) (Fin 0.15))"

definition roundedBreakdown :: "HealthData \<Rightarrow> Breakdown" where
  "roundedBreakdown d =
     \<lparr>cardiovascular = jround (calculateCardiovascularScore d),
      metabolic = jround (calculateMetabolicScore d),
      activity = jround (calculateActivityScore d),
      lifestyle = jround (calculateLifestyleScore d)\<rparr>"

definition calculateACMScore :: "HealthData \<Rightarrow> ACMScore" where
  "calculateACMScore d =
     (let adjustedScore = applyDemographicAdjustments (weightedScore d) d;
          overall = jround adjustedScore
      in \<lparr>overall = overall,
          breakdown = roundedBreakdown d,
          riskLevel = determineRiskLevel overall,
          recommendations = generateRecommendations d (roundedBreakdown d)\<rparr>)"

text \<open>\<open>getScoreColor\<close>.\<close>

definition getScoreColor :: "jsnum \<Rightarrow> string" where
  "getScoreColor score =
     (if jge score (Fin 85) then ''#10B981''
      else if jge score (Fin 70) then ''#F59E0B''
      else if jge score (Fin 50) then ''#EF4444''
      else ''#DC2626'')"

text \<open>The snapshot with every field \<open>null\<close>, the initial state of the data hook.\<close>

definition emptySnapshot :: HealthData where
  "emptySnapshot =
     \<lparr>stepCount = None, heartRate = None, weight = None, height = None,
      bloodPressureSystolic = None, bloodPressureDiastolic = None, bmi = None,
      restingHeartRate = None, activeEnergyBurned = None, age = None,
      biologicalSex = None\<rparr>"

section \<open>Notions used by the properties\<close>

text \<open>A number that is neither \<open>NaN\<close> nor an infinity, and a score within 0 and 100.\<close>

fun isFinite :: "jsnum \<Rightarrow> bool" where
  "isFinite (Fin a) = True"
| "isFinite x = False"

definition inRange100 :: "jsnum \<Rightarrow> bool" where
  "inRange100 x = (jle (Fin 0) x \<and> jle x (Fin 100))"

text \<open>
  The age multiplier as the specification words it: 0.85 from 65 on, 0.90 from 50 on,
  0.95 from 30 on, and 1.0 otherwise, also when there is no age.
\<close>

definition specAgeMultiplier :: "jsnum option \<Rightarrow> real" where
  "specAgeMultiplier a =
     (case a of
        None \<Rightarrow> 1.0
      | Some x \<Rightarrow> if jge x (Fin 65) then 0.85
                  else if jge x (Fin 50) then 0.90
                  else if jge x (Fin 30) then 0.95
                  else 1.0)"

text \<open>The colour of each risk tier, for the comparison of the two bucket functions.\<close>

fun tierColor :: "RiskLevel \<Rightarrow> string" where
  "tierColor Low = ''#10B981''"
| "tierColor Moderate = ''#F59E0B''"
| "tierColor High = ''#EF4444''"
| "tierColor VeryHigh = ''#DC2626''"

text \<open>
  The recommendations as the specification words them: per dimension below 70 a list of
  one or two strings, the lists joined in the order cardiovascular, metabolic, activity,
  lifestyle, the two generic strings when the joined list is empty, and the first four
  entries kept.
\<close>

definition readingAbove :: "jsnum option \<Rightarrow> real \<Rightarrow> bool" where
  "readingAbove reading limit = (case reading of None \<Rightarrow> False | Some x \<Rightarrow> jgt x (Fin limit))"

definition readingBelow :: "jsnum option \<Rightarrow> real \<Rightarrow> bool" where
  "readingBelow reading limit = (case reading of None \<Rightarrow> False | Some x \<Rightarrow> jlt x (Fin limit))"

definition specCardiovascularTips :: "HealthData \<Rightarrow> Breakdown \<Rightarrow> string list" where
  "specCardiovascularTips d b =
     (if jlt (cardiovascular b) (Fin 70)
      then (if readingAbove (restingHeartRate d) 80 then [adviceAerobic] else []) @ [adviceMonitorHeart]
      else [])"

definition specMetabolicTips :: "HealthData \<Rightarrow> Breakdown \<Rightarrow> string list" where
  "specMetabolicTips d b =
     (if jlt (metabolic b) (Fin 70)
      then (if readingAbove (bmi d) 25 then [adviceWeight] else []) @ [adviceDiet]
      else [])"

definition specActivityTips :: "HealthData \<Rightarrow> Breakdown \<Rightarrow> string list" where
  "specActivityTips d b =
     (if jlt (activity b) (Fin 70)
      then (if readingBelow (stepCount d) 7000 then [adviceSteps] else []) @ [adviceStrength]
      else [])"

definition specLifestyleTips :: "Breakdown \<Rightarrow> string list" where
  "specLifestyleTips b =
     (if jlt (lifestyle b) (Fin 70) then [adviceSleep, adviceStress] else [])"

definition specRecommendations :: "HealthData \<Rightarrow> Breakdown \<Rightarrow> string list" where
  "specRecommendations d b =
     (let tips = specCardiovascularTips d b @ specMetabolicTips d b
                   @ specActivityTips d b @ specLifestyleTips b
      in take 4 (if tips = [] then [adviceKeepUp, adviceMonitorHealth] else tips))"

text \<open>
  The snapshot on which the two BMI paths of the metabolic sub-scorer are compared:
  200 cm and 99.8 kg, a derived BMI of 24.95, for a woman of 30.
\<close>

definition bmiGapSnapshot :: HealthData where
  "bmiGapSnapshot =
     emptySnapshot\<lparr>weight := Some (Fin 99.8), height := Some (Fin 200),
                   age := Some (Fin 30), biologicalSex := Some Female\<rparr>"

text \<open>
  Two snapshots with a degenerate height: at 100 cm the ideal weight is zero, at 50 cm
  it is negative.
\<close>

definition zeroIdealWeightSnapshot :: HealthData where
  "zeroIdealWeightSnapshot =
     emptySnapshot\<lparr>weight := Some (Fin 70), height := Some (Fin 100),
                   age := Some (Fin 30), biologicalSex := Some Female\<rparr>"

definition negativeIdealWeightSnapshot :: HealthData where
  "negativeIdealWeightSnapshot =
     emptySnapshot\<lparr>weight := Some (Fin 70), height := Some (Fin 50),
                   age := Some (Fin 30), biologicalSex := Some Female\<rparr>"

text \<open>Snapshots for the top tiers of the activity sub-scorer.\<close>

definition steps15000Snapshot :: HealthData where
  "steps15000Snapshot = emptySnapshot\<lparr>stepCount := Some (Fin 15000)\<rparr>"

definition highTierSnapshot :: HealthData where
  "highTierSnapshot =
     emptySnapshot\<lparr>stepCount := Some (Fin 15000), activeEnergyBurned := Some (Fin 600)\<rparr>"

text \<open>
  The BMI as the specification derives it: the weight over the square of the height
  in metres.
\<close>

definition derivedBMI :: "HealthData \<Rightarrow> jsnum" where
  "derivedBMI d =
     jdiv (num (weight d)) (jmul (jdiv (num (height d)) (Fin 100)) (jdiv (num (height d)) (Fin 100)))"

text \<open>
  A snapshot that meets all three data conditions of the recommendations, and two
  breakdowns, one with every dimension under 70 and one with none.
\<close>

definition sedentarySnapshot :: HealthData where
  "sedentarySnapshot =
     emptySnapshot\<lparr>stepCount := Some (Fin 2000), restingHeartRate := Some (Fin 110),
                   bmi := Some (Fin 32)\<rparr>"

definition lowBreakdown :: Breakdown where
  "lowBreakdown =
     \<lparr>cardiovascular = Fin 60, metabolic = Fin 60, activity = Fin 60, lifestyle = Fin 60\<rparr>"

definition highBreakdown :: Breakdown where
  "highBreakdown =
     \<lparr>cardiovascular = Fin 100, metabolic = Fin 100, activity = Fin 100, lifestyle = Fin 100\<rparr>"

section \<open>Basic facts about the number model and the sub-scorers\<close>

lemma clamp100_Fin: "clamp100 (Fin x) = Fin (max 0 (min 100 x))"
  by (simp add: clamp100_def max_def min_def)

lemma jsub_Fin: "jsub (Fin a) (Fin b) = Fin (a - b)"
  by (simp add: jsub_def)

lemma isFinite_iff: "isFinite s \<longleftrightarrow> (\<exists>x. s = Fin x)"
  by (cases s) simp_all

lemma restingHeartRateBlock_finite: "isFinite s \<Longrightarrow> isFinite (restingHeartRateBlock d s)"
  by (cases s) (simp_all add: restingHeartRateBlock_def Let_def jsub_Fin)

lemma heartRateBlock_finite: "isFinite s \<Longrightarrow> isFinite (heartRateBlock d s)"
  by (cases s) (simp_all add: heartRateBlock_def Let_def jsub_Fin)

lemma bmiBlock_finite: "isFinite s \<Longrightarrow> isFinite (bmiBlock d s)"
  by (cases s) (simp_all add: bmiBlock_def Let_def jsub_Fin)

lemma weightBlock_finite: "isFinite s \<Longrightarrow> isFinite (weightBlock d s)"
  by (cases s) (simp_all add: weightBlock_def Let_def jsub_Fin)

lemma stepBlock_finite: "isFinite s \<Longrightarrow> isFinite (stepBlock d s)"
  by (cases s) (simp_all add: stepBlock_def jsub_Fin split: option.split)

lemma energyBlock_finite: "isFinite s \<Longrightarrow> isFinite (energyBlock d s)"
  by (cases s) (simp_all add: energyBlock_def jsub_Fin split: option.split)

lemma ageBlock_finite: "isFinite s \<Longrightarrow> isFinite (ageBlock d s)"
  by (cases s) (simp_all add: ageBlock_def jsub_Fin)

lemma sexBlock_finite: "isFinite s \<Longrightarrow> isFinite (sexBlock d s)"
  by (cases s) (simp_all add: sexBlock_def jsub_Fin)

lemma completenessBlock_finite: "isFinite s \<Longrightarrow> isFinite (completenessBlock d s)"
  by (cases s) (simp_all add: completenessBlock_def Let_def)

lemma clamp100_range:
  assumes "isFinite s"
  shows "\<exists>x. clamp100 s = Fin x \<and> 0 \<le> x \<and> x \<le> 100"
proof -
  from assms obtain y where "s = Fin y" by (auto simp: isFinite_iff)
  then show ?thesis by (simp add: clamp100_Fin)
qed

lemma cardiovascular_range:
  "\<exists>x. calculateCardiovascularScore d = Fin x \<and> 0 \<le> x \<and> x \<le> 100"
  unfolding calculateCardiovascularScore_def
  by (intro clamp100_range heartRateBlock_finite restingHeartRateBlock_finite) simp

lemma metabolic_range:
  "\<exists>x. calculateMetabolicScore d = Fin x \<and> 0 \<le> x \<and> x \<le> 100"
  unfolding calculateMetabolicScore_def
  by (intro clamp100_range weightBlock_finite bmiBlock_finite) simp

lemma activity_range:
  "\<exists>x. calculateActivityScore d = Fin x \<and> 0 \<le> x \<and> x \<le> 100"
  unfolding calculateActivityScore_def
  by (intro clamp100_range energyBlock_finite stepBlock_finite) simp

lemma lifestyle_range:
  "\<exists>x. calculateLifestyleScore d = Fin x \<and> 0 \<le> x \<and> x \<le> 100"
  unfolding calculateLifestyleScore_def
  by (intro clamp100_range completenessBlock_finite sexBlock_finite ageBlock_finite) simp

lemma weightedScore_range:
  "\<exists>w. weightedScore d = Fin w \<and> 0 \<le> w \<and> w \<le> 100"
proof -
  obtain c where c: "calculateCardiovascularScore d = Fin c" "0 \<le> c" "c \<le> 100"
    using cardiovascular_range by blast
  obtain m where m: "calculateMetabolicScore d = Fin m" "0 \<le> m" "m \<le> 100"
    using metabolic_range by blast
  obtain a where a: "calculateActivityScore d = Fin a" "0 \<le> a" "a \<le> 100"
    using activity_range by blast
  obtain l where l: "calculateLifestyleScore d = Fin l" "0 \<le> l" "l \<le> 100"
    using lifestyle_range by blast
  have "weightedScore d = Fin (c * 0.35 + m * 0.25 + a * 0.25 + l * 0.15)"
    by (simp add: weightedScore_def c m a l)
  moreover have "0 \<le> c * 0.35 + m * 0.25 + a * 0.25 + l * 0.15"
    using c m a l by simp
  moreover have "c * 0.35 + m * 0.25 + a * 0.25 + l * 0.15 \<le> 100"
    using c m a l by simp
  ultimately show ?thesis by blast
qed

lemma applyDemographicAdjustments_range:
  assumes "isFinite s"
  shows "\<exists>x. applyDemographicAdjustments s d = Fin x \<and> 0 \<le> x \<and> x \<le> 100"
proof -
  from assms obtain y where "s = Fin y" by (auto simp: isFinite_iff)
  then show ?thesis
    unfolding applyDemographicAdjustments_def
    by (intro clamp100_range) (simp add: Let_def)
qed

lemma jround_range:
  assumes "0 \<le> x" "x \<le> 100"
  shows "\<exists>n::int. jround (Fin x) = Fin (of_int n) \<and> 0 \<le> n \<and> n \<le> 100"
proof -
  have "0 \<le> \<lfloor>x + 1 / 2\<rfloor>" using assms by simp
  moreover have "\<lfloor>x + 1 / 2\<rfloor> \<le> 100" using assms by (simp add: floor_le_iff)
  ultimately show ?thesis by simp
qed

lemma overall_range:
  "\<exists>n::int. overall (calculateACMScore d) = Fin (of_int n) \<and> 0 \<le> n \<and> n \<le> 100"
proof -
  obtain w where w: "weightedScore d = Fin w" using weightedScore_range by blast
  obtain x where x: "applyDemographicAdjustments (weightedScore d) d = Fin x" "0 \<le> x" "x \<le> 100"
    using applyDemographicAdjustments_range [of "weightedScore d" d] w by auto
  show ?thesis using jround_range [OF x(2,3)] by (simp add: calculateACMScore_def Let_def x(1))
qed

lemma breakdown_range:
  "\<exists>c m a l :: int. breakdown (calculateACMScore d) =
      \<lparr>cardiovascular = Fin (of_int c), metabolic = Fin (of_int m),
       activity = Fin (of_int a), lifestyle = Fin (of_int l)\<rparr>
     \<and> 0 \<le> c \<and> c \<le> 100 \<and> 0 \<le> m \<and> m \<le> 100 \<and> 0 \<le> a \<and> a \<le> 100 \<and> 0 \<le> l \<and> l \<le> 100"
proof -
  obtain c where c: "calculateCardiovascularScore d = Fin c" "0 \<le> c" "c \<le> 100"
    using cardiovascular_range by blast
  obtain m where m: "calculateMetabolicScore d = Fin m" "0 \<le> m" "m \<le> 100"
    using metabolic_range by blast
  obtain a where a: "calculateActivityScore d = Fin a" "0 \<le> a" "a \<le> 100"
    using activity_range by blast
  obtain l where l: "calculateLifestyleScore d = Fin l" "0 \<le> l" "l \<le> 100"
    using lifestyle_range by blast
  obtain c' :: int where c': "jround (Fin c) = Fin (of_int c')" "0 \<le> c'" "c' \<le> 100"
    using jround_range [OF c(2,3)] by blast
  obtain m' :: int where m': "jround (Fin m) = Fin (of_int m')" "0 \<le> m'" "m' \<le> 100"
    using jround_range [OF m(2,3)] by blast
  obtain a' :: int where a': "jround (Fin a) = Fin (of_int a')" "0 \<le> a'" "a' \<le> 100"
    using jround_range [OF a(2,3)] by blast
  obtain l' :: int where l': "jround (Fin l) = Fin (of_int l')" "0 \<le> l'" "l' \<le> 100"
    using jround_range [OF l(2,3)] by blast
  have "breakdown (calculateACMScore d) =
      \<lparr>cardiovascular = Fin (of_int c'), metabolic = Fin (of_int m'),
       activity = Fin (of_int a'), lifestyle = Fin (of_int l')\<rparr>"
    using c' m' a' l'
    by (simp add: calculateACMScore_def Let_def roundedBreakdown_def c(1) m(1) a(1) l(1))
  then show ?thesis using c' m' a' l' by blast
qed

lemma inRange100_Fin: "inRange100 (Fin x) \<longleftrightarrow> 0 \<le> x \<and> x \<le> 100"
  by (simp add: inRange100_def)

lemmas scorer_defs =
  calculateCardiovascularScore_def restingHeartRateBlock_def heartRateBlock_def
  calculateMetabolicScore_def bmiBlock_def weightBlock_def idealWeight_def
  calculateActivityScore_def stepBlock_def energyBlock_def calorieRatio_def targetCalories_def
  calculateLifestyleScore_def ageBlock_def sexBlock_def completenessBlock_def
  dataCompleteness_def healthMetrics_def jge_def jgt_def

lemma zero_ideal: "idealWeight zeroIdealWeightSnapshot = Fin 0"
  by (simp add: idealWeight_def jge_def jgt_def zeroIdealWeightSnapshot_def emptySnapshot_def jsub_Fin)

lemma zero_ideal_metabolic: "calculateMetabolicScore zeroIdealWeightSnapshot = Fin 50"
  by (simp add: scorer_defs zeroIdealWeightSnapshot_def emptySnapshot_def jsub_Fin clamp100_Fin)

lemma neg_ideal: "idealWeight negativeIdealWeightSnapshot = Fin (- 42.5)"
  by (simp add: idealWeight_def jge_def jgt_def negativeIdealWeightSnapshot_def emptySnapshot_def jsub_Fin)

lemma neg_ideal_metabolic: "calculateMetabolicScore negativeIdealWeightSnapshot = Fin 70"
  by (simp add: scorer_defs negativeIdealWeightSnapshot_def emptySnapshot_def jsub_Fin clamp100_Fin)

lemma empty_sub:
  "calculateCardiovascularScore emptySnapshot = Fin 100"
  "calculateMetabolicScore emptySnapshot = Fin 100"
  "calculateActivityScore emptySnapshot = Fin 100"
  "calculateLifestyleScore emptySnapshot = Fin 100"
  by (simp_all add: scorer_defs emptySnapshot_def clamp100_Fin)

lemma empty_all:
  "calculateACMScore emptySnapshot =
     \<lparr>overall = Fin 100,
      breakdown = \<lparr>cardiovascular = Fin 100, metabolic = Fin 100,
                   activity = Fin 100, lifestyle = Fin 100\<rparr>,
      riskLevel = Low,
      recommendations = [adviceKeepUp, adviceMonitorHealth]\<rparr>"
  apply (simp add: calculateACMScore_def roundedBreakdown_def weightedScore_def empty_sub Let_def)
  apply (simp add: applyDemographicAdjustments_def clamp100_Fin emptySnapshot_def
      determineRiskLevel_def generateRecommendations_def jge_def jgt_def cardiovascularAdvice_def
      metabolicAdvice_def activityAdvice_def lifestyleAdvice_def genericAdvice_def)
  done

lemma jmul_one: "jmul s (Fin 1) = s"
  by (cases s) simp_all

lemma absent_skips:
  "restingHeartRate d = None \<Longrightarrow> restingHeartRateBlock d s = s"
  "heartRate d = None \<or> restingHeartRate d = None \<Longrightarrow> heartRateBlock d s = s"
  "bmi d = None \<and> (weight d = None \<or> height d = None) \<Longrightarrow> bmiBlock d s = s"
  "weight d = None \<or> height d = None \<or> age d = None \<or> biologicalSex d = None
     \<Longrightarrow> weightBlock d s = s"
  "stepCount d = None \<Longrightarrow> stepBlock d s = s"
  "activeEnergyBurned d = None \<Longrightarrow> energyBlock d s = s"
  "age d = None \<Longrightarrow> ageBlock d s = s"
  by (auto simp add: restingHeartRateBlock_def heartRateBlock_def bmiBlock_def weightBlock_def
      stepBlock_def energyBlock_def ageBlock_def)

lemma demographic_as_multiplier:
  "applyDemographicAdjustments s d = clamp100 (jmul s (Fin (specAgeMultiplier (age d))))"
proof (cases "age d")
  case None
  then show ?thesis
    by (simp add: applyDemographicAdjustments_def specAgeMultiplier_def jmul_one)
next
  case (Some x)
  show ?thesis
  proof (cases "truthy x")
    case True
    then show ?thesis
      by (simp add: applyDemographicAdjustments_def specAgeMultiplier_def Some Let_def)
  next
    case False
    then have "x = Fin 0 \<or> x = NaN" by (cases x) simp_all
    then show ?thesis
      by (auto simp add: applyDemographicAdjustments_def specAgeMultiplier_def Some jge_def jmul_one)
  qed
qed

lemma jle_trans_Fin: "jle (Fin a) x \<Longrightarrow> b \<le> a \<Longrightarrow> jle (Fin b) x"
  by (cases x) simp_all

lemma jle_not_jlt: "jle (Fin a) x \<Longrightarrow> a \<ge> b \<Longrightarrow> \<not> jlt x (Fin b)"
  by (cases x) simp_all

lemma stepBlock_high:
  assumes "stepCount d = Some steps" "jge steps (Fin 12000)"
  shows "stepBlock d score = jadd score (Fin 15)"
proof -
  have ge: "jle (Fin 12000) steps" using assms(2) by (simp add: jge_def)
  have "\<not> jlt steps (Fin 3000)" "\<not> jlt steps (Fin 5000)" "\<not> jlt steps (Fin 7000)"
    using ge by (simp_all add: jle_not_jlt)
  moreover have "jge steps (Fin 10000)"
    using jle_trans_Fin [OF ge, of 10000] by (simp add: jge_def)
  ultimately show ?thesis by (simp add: stepBlock_def assms(1))
qed

lemma energyBlock_high:
  assumes "activeEnergyBurned d = Some calories" "jge (calorieRatio d calories) (Fin 1.5)"
  shows "energyBlock d score = jadd score (Fin 15)"
proof -
  have ge: "jle (Fin 1.5) (calorieRatio d calories)" using assms(2) by (simp add: jge_def)
  have "\<not> jlt (calorieRatio d calories) (Fin 0.3)" "\<not> jlt (calorieRatio d calories) (Fin 0.6)"
    using ge by (simp_all add: jle_not_jlt)
  moreover have "jge (calorieRatio d calories) (Fin 1.2)"
    using jle_trans_Fin [OF ge, of "1.2"] by (simp add: jge_def)
  ultimately show ?thesis by (simp add: energyBlock_def assms(1))
qed

lemma stepBlock_never_20: "stepBlock d (Fin x) \<noteq> Fin (x + 20)"
proof (cases "stepCount d")
  case None
  then show ?thesis by (simp add: stepBlock_def)
next
  case (Some steps)
  show ?thesis
  proof (cases "jge steps (Fin 10000)")
    case True
    then show ?thesis by (simp add: stepBlock_def Some jsub_Fin)
  next
    case False
    have "\<not> jge steps (Fin 12000)"
      using False jle_trans_Fin [of 12000 steps 10000] by (auto simp add: jge_def)
    then show ?thesis using False by (simp add: stepBlock_def Some jsub_Fin)
  qed
qed

lemma energyBlock_never_20: "energyBlock d (Fin x) \<noteq> Fin (x + 20)"
proof (cases "activeEnergyBurned d")
  case None
  then show ?thesis by (simp add: energyBlock_def)
next
  case (Some calories)
  show ?thesis
  proof (cases "jge (calorieRatio d calories) (Fin 1.2)")
    case True
    then show ?thesis by (simp add: energyBlock_def Some jsub_Fin)
  next
    case False
    have "\<not> jge (calorieRatio d calories) (Fin 1.5)"
      using False jle_trans_Fin [of "1.5" "calorieRatio d calories" "1.2"] by (auto simp add: jge_def)
    then show ?thesis using False by (simp add: energyBlock_def Some jsub_Fin)
  qed
qed

lemma steps15000: "calculateActivityScore steps15000Snapshot = Fin 100"
  by (simp add: calculateActivityScore_def stepBlock_def energyBlock_def steps15000Snapshot_def
      emptySnapshot_def jge_def clamp100_Fin)

lemma steps15000_raw:
  "energyBlock steps15000Snapshot (stepBlock steps15000Snapshot (Fin 100)) = Fin 115"
  by (simp add: stepBlock_def energyBlock_def steps15000Snapshot_def emptySnapshot_def jge_def)

section \<open>Risk tiers, recommendations, zero readings and the BMI paths\<close>

lemma determineRiskLevel_int:
  "determineRiskLevel (Fin (of_int s)) =
     (if 85 \<le> s then Low else if 70 \<le> s then Moderate else if 50 \<le> s then High else VeryHigh)"
  by (simp add: determineRiskLevel_def jge_def)

lemma color_of_tier: "getScoreColor x = tierColor (determineRiskLevel x)"
  by (simp add: getScoreColor_def determineRiskLevel_def)

lemma tierColor_inj: "inj tierColor"
proof (rule injI)
  fix a b assume "tierColor a = tierColor b"
  then show "a = b" by (cases a; cases b) simp_all
qed

lemma above_present: "(present r \<and> jgt (num r) (Fin 80)) = readingAbove r 80"
  "(present r \<and> jgt (num r) (Fin 25)) = readingAbove r 25"
proof -
  have "\<And>k. 0 < k \<Longrightarrow> (present r \<and> jgt (num r) (Fin k)) = readingAbove r k"
  proof -
    fix k :: real assume "0 < k"
    show "(present r \<and> jgt (num r) (Fin k)) = readingAbove r k"
    proof (cases r)
      case None
      then show ?thesis by (simp add: readingAbove_def)
    next
      case (Some x)
      then show ?thesis using \<open>0 < k\<close> by (cases x) (auto simp add: readingAbove_def jgt_def)
    qed
  qed
  then show "(present r \<and> jgt (num r) (Fin 80)) = readingAbove r 80"
    "(present r \<and> jgt (num r) (Fin 25)) = readingAbove r 25" by simp_all
qed

lemma cardiovascularAdvice_spec:
  "cardiovascularAdvice d b recs = recs @ specCardiovascularTips d b"
  by (simp add: cardiovascularAdvice_def specCardiovascularTips_def above_present Let_def)

lemma metabolicAdvice_spec:
  "metabolicAdvice d b recs = recs @ specMetabolicTips d b"
  by (simp add: metabolicAdvice_def specMetabolicTips_def above_present Let_def)

lemma activityAdvice_spec:
  "activityAdvice d b recs = recs @ specActivityTips d b"
  by (simp add: activityAdvice_def specActivityTips_def readingBelow_def Let_def split: option.split)

lemma lifestyleAdvice_spec:
  "lifestyleAdvice b recs = recs @ specLifestyleTips b"
  by (simp add: lifestyleAdvice_def specLifestyleTips_def)

lemma genericAdvice_spec:
  "genericAdvice recs = (if recs = [] then [adviceKeepUp, adviceMonitorHealth] else recs)"
  by (simp add: genericAdvice_def)

lemma generateRecommendations_spec:
  "generateRecommendations d b = specRecommendations d b"
  by (simp only: generateRecommendations_def specRecommendations_def cardiovascularAdvice_spec
      metabolicAdvice_spec activityAdvice_spec lifestyleAdvice_spec genericAdvice_spec
      Let_def append_Nil append_assoc)

lemma advice_distinct:
  "distinct [adviceAerobic, adviceMonitorHeart, adviceWeight, adviceDiet, adviceSteps,
             adviceStrength, adviceSleep, adviceStress, adviceKeepUp, adviceMonitorHealth]"
  by (simp add: adviceAerobic_def adviceMonitorHeart_def adviceWeight_def adviceDiet_def
      adviceSteps_def adviceStrength_def adviceSleep_def adviceStress_def adviceKeepUp_def
      adviceMonitorHealth_def)

lemma tips_lengths:
  "length (specCardiovascularTips d b) \<le> 2"
  "length (specMetabolicTips d b) \<le> 2"
  "length (specActivityTips d b) \<le> 2"
  "length (specLifestyleTips b) \<le> 2"
  "jlt (cardiovascular b) (Fin 70) \<Longrightarrow> 1 \<le> length (specCardiovascularTips d b)"
  "jlt (metabolic b) (Fin 70) \<Longrightarrow> 1 \<le> length (specMetabolicTips d b)"
  "jlt (activity b) (Fin 70) \<Longrightarrow> 1 \<le> length (specActivityTips d b)"
  "jlt (lifestyle b) (Fin 70) \<Longrightarrow> length (specLifestyleTips b) = 2"
  by (simp_all add: specCardiovascularTips_def specMetabolicTips_def specActivityTips_def
      specLifestyleTips_def)

lemma tips_empty:
  "\<not> jlt (cardiovascular b) (Fin 70) \<Longrightarrow> specCardiovascularTips d b = []"
  "\<not> jlt (metabolic b) (Fin 70) \<Longrightarrow> specMetabolicTips d b = []"
  "\<not> jlt (activity b) (Fin 70) \<Longrightarrow> specActivityTips d b = []"
  "\<not> jlt (lifestyle b) (Fin 70) \<Longrightarrow> specLifestyleTips b = []"
  by (simp_all add: specCardiovascularTips_def specMetabolicTips_def specActivityTips_def
      specLifestyleTips_def)

lemma recommendations_length: 
  "1 \<le> length (generateRecommendations d b) \<and> length (generateRecommendations d b) \<le> 4"
proof -
  let ?tips = "specCardiovascularTips d b @ specMetabolicTips d b
                 @ specActivityTips d b @ specLifestyleTips b"
  have "generateRecommendations d b =
          take 4 (if ?tips = [] then [adviceKeepUp, adviceMonitorHealth] else ?tips)"
    by (simp add: generateRecommendations_spec specRecommendations_def Let_def)
  moreover have "1 \<le> length (take 4 (if ?tips = [] then [adviceKeepUp, adviceMonitorHealth] else ?tips))"
    by (cases ?tips) simp_all
  ultimately show ?thesis by simp
qed

lemma recommendations_fallback:
  assumes "\<not> jlt (cardiovascular b) (Fin 70)" "\<not> jlt (metabolic b) (Fin 70)"
    "\<not> jlt (activity b) (Fin 70)" "\<not> jlt (lifestyle b) (Fin 70)"
  shows "generateRecommendations d b = [adviceKeepUp, adviceMonitorHealth]"
  by (simp add: generateRecommendations_spec specRecommendations_def tips_empty assms)

lemma zero_restingHeartRate_parts:
  "calculateCardiovascularScore (d\<lparr>restingHeartRate := Some (Fin 0)\<rparr>)
     = calculateCardiovascularScore (d\<lparr>restingHeartRate := None\<rparr>)"
  "calculateMetabolicScore (d\<lparr>restingHeartRate := Some (Fin 0)\<rparr>)
     = calculateMetabolicScore (d\<lparr>restingHeartRate := None\<rparr>)"
  "calculateActivityScore (d\<lparr>restingHeartRate := Some (Fin 0)\<rparr>)
     = calculateActivityScore (d\<lparr>restingHeartRate := None\<rparr>)"
  "calculateLifestyleScore (d\<lparr>restingHeartRate := Some (Fin 0)\<rparr>)
     = calculateLifestyleScore (d\<lparr>restingHeartRate := None\<rparr>)"
  "applyDemographicAdjustments w (d\<lparr>restingHeartRate := Some (Fin 0)\<rparr>)
     = applyDemographicAdjustments w (d\<lparr>restingHeartRate := None\<rparr>)"
  "generateRecommendations (d\<lparr>restingHeartRate := Some (Fin 0)\<rparr>) b
     = generateRecommendations (d\<lparr>restingHeartRate := None\<rparr>) b"
proof -
  show "calculateCardiovascularScore (d\<lparr>restingHeartRate := Some (Fin 0)\<rparr>)
     = calculateCardiovascularScore (d\<lparr>restingHeartRate := None\<rparr>)"
    by (simp add: calculateCardiovascularScore_def restingHeartRateBlock_def heartRateBlock_def Let_def cong: if_cong option.case_cong)
  show "calculateMetabolicScore (d\<lparr>restingHeartRate := Some (Fin 0)\<rparr>)
     = calculateMetabolicScore (d\<lparr>restingHeartRate := None\<rparr>)"
    by (simp add: calculateMetabolicScore_def bmiBlock_def weightBlock_def idealWeight_def Let_def cong: if_cong option.case_cong)
  show "calculateActivityScore (d\<lparr>restingHeartRate := Some (Fin 0)\<rparr>)
     = calculateActivityScore (d\<lparr>restingHeartRate := None\<rparr>)"
    by (simp add: calculateActivityScore_def stepBlock_def energyBlock_def calorieRatio_def
        targetCalories_def Let_def cong: if_cong option.case_cong)
  show "calculateLifestyleScore (d\<lparr>restingHeartRate := Some (Fin 0)\<rparr>)
     = calculateLifestyleScore (d\<lparr>restingHeartRate := None\<rparr>)"
    by (simp add: calculateLifestyleScore_def ageBlock_def sexBlock_def completenessBlock_def
        dataCompleteness_def healthMetrics_def jgt_def Let_def cong: if_cong option.case_cong)
  show "applyDemographicAdjustments w (d\<lparr>restingHeartRate := Some (Fin 0)\<rparr>)
     = applyDemographicAdjustments w (d\<lparr>restingHeartRate := None\<rparr>)"
    by (simp add: applyDemographicAdjustments_def Let_def cong: if_cong option.case_cong)
  show "generateRecommendations (d\<lparr>restingHeartRate := Some (Fin 0)\<rparr>) b
     = generateRecommendations (d\<lparr>restingHeartRate := None\<rparr>) b"
    by (simp add: generateRecommendations_def cardiovascularAdvice_def metabolicAdvice_def
        activityAdvice_def Let_def cong: if_cong option.case_cong)
qed

lemma zero_restingHeartRate:
  "calculateACMScore (d\<lparr>restingHeartRate := Some (Fin 0)\<rparr>)
     = calculateACMScore (d\<lparr>restingHeartRate := None\<rparr>)"
  by (simp only: calculateACMScore_def weightedScore_def roundedBreakdown_def
      zero_restingHeartRate_parts)

lemma zero_heartRate_parts:
  "calculateCardiovascularScore (d\<lparr>heartRate := Some (Fin 0)\<rparr>)
     = calculateCardiovascularScore (d\<lparr>heartRate := None\<rparr>)"
  "calculateMetabolicScore (d\<lparr>heartRate := Some (Fin 0)\<rparr>)
     = calculateMetabolicScore (d\<lparr>heartRate := None\<rparr>)"
  "calculateActivityScore (d\<lparr>heartRate := Some (Fin 0)\<rparr>)
     = calculateActivityScore (d\<lparr>heartRate := None\<rparr>)"
  "calculateLifestyleScore (d\<lparr>heartRate := Some (Fin 0)\<rparr>)
     = calculateLifestyleScore (d\<lparr>heartRate := None\<rparr>)"
  "applyDemographicAdjustments w (d\<lparr>heartRate := Some (Fin 0)\<rparr>)
     = applyDemographicAdjustments w (d\<lparr>heartRate := None\<rparr>)"
  "generateRecommendations (d\<lparr>heartRate := Some (Fin 0)\<rparr>) b
     = generateRecommendations (d\<lparr>heartRate := None\<rparr>) b"
proof -
  show "calculateCardiovascularScore (d\<lparr>heartRate := Some (Fin 0)\<rparr>)
     = calculateCardiovascularScore (d\<lparr>heartRate := None\<rparr>)"
    by (simp add: calculateCardiovascularScore_def restingHeartRateBlock_def heartRateBlock_def Let_def cong: if_cong option.case_cong)
  show "calculateMetabolicScore (d\<lparr>heartRate := Some (Fin 0)\<rparr>)
     = calculateMetabolicScore (d\<lparr>heartRate := None\<rparr>)"
    by (simp add: calculateMetabolicScore_def bmiBlock_def weightBlock_def idealWeight_def Let_def cong: if_cong option.case_cong)
  show "calculateActivityScore (d\<lparr>heartRate := Some (Fin 0)\<rparr>)
     = calculateActivityScore (d\<lparr>heartRate := None\<rparr>)"
    by (simp add: calculateActivityScore_def stepBlock_def energyBlock_def calorieRatio_def
        targetCalories_def Let_def cong: if_cong option.case_cong)
  show "calculateLifestyleScore (d\<lparr>heartRate := Some (Fin 0)\<rparr>)
     = calculateLifestyleScore (d\<lparr>heartRate := None\<rparr>)"
    by (simp add: calculateLifestyleScore_def ageBlock_def sexBlock_def completenessBlock_def
        dataCompleteness_def healthMetrics_def jgt_def Let_def cong: if_cong option.case_cong)
  show "applyDemographicAdjustments w (d\<lparr>heartRate := Some (Fin 0)\<rparr>)
     = applyDemographicAdjustments w (d\<lparr>heartRate := None\<rparr>)"
    by (simp add: applyDemographicAdjustments_def Let_def cong: if_cong option.case_cong)
  show "generateRecommendations (d\<lparr>heartRate := Some (Fin 0)\<rparr>) b
     = generateRecommendations (d\<lparr>heartRate := None\<rparr>) b"
    by (simp add: generateRecommendations_def cardiovascularAdvice_def metabolicAdvice_def
        activityAdvice_def Let_def cong: if_cong option.case_cong)
qed

lemma zero_heartRate:
  "calculateACMScore (d\<lparr>heartRate := Some (Fin 0)\<rparr>)
     = calculateACMScore (d\<lparr>heartRate := None\<rparr>)"
  by (simp only: calculateACMScore_def weightedScore_def roundedBreakdown_def
      zero_heartRate_parts)

lemma zero_bmi_parts:
  "calculateCardiovascularScore (d\<lparr>bmi := Some (Fin 0)\<rparr>)
     = calculateCardiovascularScore (d\<lparr>bmi := None\<rparr>)"
  "calculateMetabolicScore (d\<lparr>bmi := Some (Fin 0)\<rparr>)
     = calculateMetabolicScore (d\<lparr>bmi := None\<rparr>)"
  "calculateActivityScore (d\<lparr>bmi := Some (Fin 0)\<rparr>)
     = calculateActivityScore (d\<lparr>bmi := None\<rparr>)"
  "calculateLifestyleScore (d\<lparr>bmi := Some (Fin 0)\<rparr>)
     = calculateLifestyleScore (d\<lparr>bmi := None\<rparr>)"
  "applyDemographicAdjustments w (d\<lparr>bmi := Some (Fin 0)\<rparr>)
     = applyDemographicAdjustments w (d\<lparr>bmi := None\<rparr>)"
  "generateRecommendations (d\<lparr>bmi := Some (Fin 0)\<rparr>) b
     = generateRecommendations (d\<lparr>bmi := None\<rparr>) b"
proof -
  show "calculateCardiovascularScore (d\<lparr>bmi := Some (Fin 0)\<rparr>)
     = calculateCardiovascularScore (d\<lparr>bmi := None\<rparr>)"
    by (simp add: calculateCardiovascularScore_def restingHeartRateBlock_def heartRateBlock_def Let_def cong: if_cong option.case_cong)
  show "calculateMetabolicScore (d\<lparr>bmi := Some (Fin 0)\<rparr>)
     = calculateMetabolicScore (d\<lparr>bmi := None\<rparr>)"
    by (simp add: calculateMetabolicScore_def bmiBlock_def weightBlock_def idealWeight_def Let_def cong: if_cong option.case_cong)
  show "calculateActivityScore (d\<lparr>bmi := Some (Fin 0)\<rparr>)
     = calculateActivityScore (d\<lparr>bmi := None\<rparr>)"
    by (simp add: calculateActivityScore_def stepBlock_def energyBlock_def calorieRatio_def
        targetCalories_def Let_def cong: if_cong option.case_cong)
  show "calculateLifestyleScore (d\<lparr>bmi := Some (Fin 0)\<rparr>)
     = calculateLifestyleScore (d\<lparr>bmi := None\<rparr>)"
    by (simp add: calculateLifestyleScore_def ageBlock_def sexBlock_def completenessBlock_def
        dataCompleteness_def healthMetrics_def jgt_def Let_def cong: if_cong option.case_cong)
  show "applyDemographicAdjustments w (d\<lparr>bmi := Some (Fin 0)\<rparr>)
     = applyDemographicAdjustments w (d\<lparr>bmi := None\<rparr>)"
    by (simp add: applyDemographicAdjustments_def Let_def cong: if_cong option.case_cong)
  show "generateRecommendations (d\<lparr>bmi := Some (Fin 0)\<rparr>) b
     = generateRecommendations (d\<lparr>bmi := None\<rparr>) b"
    by (simp add: generateRecommendations_def cardiovascularAdvice_def metabolicAdvice_def
        activityAdvice_def Let_def cong: if_cong option.case_cong)
qed

lemma zero_bmi:
  "calculateACMScore (d\<lparr>bmi := Some (Fin 0)\<rparr>)
     = calculateACMScore (d\<lparr>bmi := None\<rparr>)"
  by (simp only: calculateACMScore_def weightedScore_def roundedBreakdown_def
      zero_bmi_parts)

lemma zero_bmi_block:
  "bmiBlock (d\<lparr>bmi := Some (Fin 0)\<rparr>) s = bmiBlock (d\<lparr>bmi := None\<rparr>) s"
  by (simp add: bmiBlock_def)

lemma zero_steps:
  "activity (breakdown (calculateACMScore (emptySnapshot\<lparr>stepCount := Some (Fin 0)\<rparr>))) = Fin 60"
  "calculateActivityScore (emptySnapshot\<lparr>stepCount := Some (Fin 0)\<rparr>) = Fin 60"
  by (simp_all add: calculateACMScore_def roundedBreakdown_def scorer_defs emptySnapshot_def
      jsub_Fin clamp100_Fin Let_def)

lemma zero_energy:
  "activity (breakdown (calculateACMScore (emptySnapshot\<lparr>activeEnergyBurned := Some (Fin 0)\<rparr>))) = Fin 70"
  "calculateActivityScore (emptySnapshot\<lparr>activeEnergyBurned := Some (Fin 0)\<rparr>) = Fin 70"
  by (simp_all add: calculateACMScore_def roundedBreakdown_def scorer_defs emptySnapshot_def
      jsub_Fin clamp100_Fin Let_def)

lemma null_activity:
  "activity (breakdown (calculateACMScore emptySnapshot)) = Fin 100"
  by (simp add: calculateACMScore_def roundedBreakdown_def empty_sub Let_def)

lemma gap_derived: "derivedBMI bmiGapSnapshot = Fin 24.95"
  by (simp add: derivedBMI_def bmiGapSnapshot_def emptySnapshot_def)

lemma gap_metabolic_derived: "calculateMetabolicScore bmiGapSnapshot = Fin 100"
  by (simp add: scorer_defs bmiGapSnapshot_def emptySnapshot_def jsub_Fin clamp100_Fin)

lemma gap_metabolic_direct:
  "calculateMetabolicScore (bmiGapSnapshot\<lparr>bmi := Some (Fin 24.95)\<rparr>) = Fin 90"
  by (simp add: scorer_defs bmiGapSnapshot_def emptySnapshot_def jsub_Fin clamp100_Fin)

lemma weightBlock_ignores_bmi: "weightBlock (d\<lparr>bmi := v\<rparr>) s = weightBlock d s"
  by (simp add: weightBlock_def idealWeight_def Let_def cong: if_cong)

lemma bmiBlock_paths_agree_outside_gap:
  assumes "bmi d = None" "present (weight d)" "present (height d)"
    and "\<not> (jlt (Fin 24.9) (derivedBMI d) \<and> jlt (derivedBMI d) (Fin 25))"
  shows "bmiBlock (d\<lparr>bmi := Some (derivedBMI d)\<rparr>) s = bmiBlock d s"
proof (cases "derivedBMI d")
  case (Fin x)
  have der: "jdiv (num (weight d)) (jmul (jdiv (num (height d)) (Fin 100)) (jdiv (num (height d)) (Fin 100))) = Fin x"
    using Fin by (simp add: derivedBMI_def)
  have "\<not> (24.9 < x \<and> x < 25)" using assms(4) Fin by simp
  then show ?thesis
    using assms(1-3) by (auto simp add: bmiBlock_def Fin der Let_def jge_def)
next
  case PosInf
  have der: "jdiv (num (weight d)) (jmul (jdiv (num (height d)) (Fin 100)) (jdiv (num (height d)) (Fin 100))) = PosInf"
    using PosInf by (simp add: derivedBMI_def)
  show ?thesis using assms(1-3) by (simp add: bmiBlock_def PosInf der Let_def jge_def)
next
  case NegInf
  have der: "jdiv (num (weight d)) (jmul (jdiv (num (height d)) (Fin 100)) (jdiv (num (height d)) (Fin 100))) = NegInf"
    using NegInf by (simp add: derivedBMI_def)
  show ?thesis using assms(1-3) by (simp add: bmiBlock_def NegInf der Let_def jge_def)
next
  case NaN
  show ?thesis using assms(1-3) by (simp add: bmiBlock_def NaN Let_def)
qed

lemma metabolic_paths_agree_outside_gap:
  assumes "bmi d = None" "present (weight d)" "present (height d)"
    and "\<not> (jlt (Fin 24.9) (derivedBMI d) \<and> jlt (derivedBMI d) (Fin 25))"
  shows "calculateMetabolicScore (d\<lparr>bmi := Some (derivedBMI d)\<rparr>) = calculateMetabolicScore d"
  by (simp add: calculateMetabolicScore_def weightBlock_ignores_bmi
      bmiBlock_paths_agree_outside_gap [OF assms])

lemma advice_blocks_push:
  "jlt (cardiovascular b) (Fin 70) \<Longrightarrow> length recs < length (cardiovascularAdvice d b recs)"
  "jlt (metabolic b) (Fin 70) \<Longrightarrow> length recs < length (metabolicAdvice d b recs)"
  "jlt (activity b) (Fin 70) \<Longrightarrow> length recs < length (activityAdvice d b recs)"
  "jlt (lifestyle b) (Fin 70) \<Longrightarrow> length recs < length (lifestyleAdvice b recs)"
  by (simp_all add: cardiovascularAdvice_def metabolicAdvice_def activityAdvice_def
      lifestyleAdvice_def Let_def split: option.split)

section \<open>Properties of the scoring engine\<close>

text \<open>
  C1. For every snapshot, whatever fields are absent and whatever numbers the others
  hold, the overall score and the four breakdown fields returned by
  \<open>calculateACMScore\<close> lie between 0 and 100, and so do the four sub-scores before
  they are rounded.
\<close>

theorem scores_within_0_100:
  "inRange100 (overall (calculateACMScore d))
   \<and> inRange100 (cardiovascular (breakdown (calculateACMScore d)))
   \<and> inRange100 (metabolic (breakdown (calculateACMScore d)))
   \<and> inRange100 (activity (breakdown (calculateACMScore d)))
   \<and> inRange100 (lifestyle (breakdown (calculateACMScore d)))
   \<and> inRange100 (calculateCardiovascularScore d)
   \<and> inRange100 (calculateMetabolicScore d)
   \<and> inRange100 (calculateActivityScore d)
   \<and> inRange100 (calculateLifestyleScore d)"
proof -
  obtain n :: int where n: "overall (calculateACMScore d) = Fin (of_int n)" "0 \<le> n" "n \<le> 100"
    using overall_range by blast
  obtain c m a l :: int where b: "breakdown (calculateACMScore d) =
      \<lparr>cardiovascular = Fin (of_int c), metabolic = Fin (of_int m),
       activity = Fin (of_int a), lifestyle = Fin (of_int l)\<rparr>"
     "0 \<le> c" "c \<le> 100" "0 \<le> m" "m \<le> 100" "0 \<le> a" "a \<le> 100" "0 \<le> l" "l \<le> 100"
    using breakdown_range by blast
  have "inRange100 (overall (calculateACMScore d))"
    using n by (simp add: inRange100_Fin)
  moreover have "inRange100 (cardiovascular (breakdown (calculateACMScore d)))"
    using b by (simp add: inRange100_Fin)
  moreover have "inRange100 (metabolic (breakdown (calculateACMScore d)))"
    using b by (simp add: inRange100_Fin)
  moreover have "inRange100 (activity (breakdown (calculateACMScore d)))"
    using b by (simp add: inRange100_Fin)
  moreover have "inRange100 (lifestyle (breakdown (calculateACMScore d)))"
    using b by (simp add: inRange100_Fin)
  moreover have "inRange100 (calculateCardiovascularScore d)"
    using cardiovascular_range [of d] by (auto simp: inRange100_Fin)
  moreover have "inRange100 (calculateMetabolicScore d)"
    using metabolic_range [of d] by (auto simp: inRange100_Fin)
  moreover have "inRange100 (calculateActivityScore d)"
    using activity_range [of d] by (auto simp: inRange100_Fin)
  moreover have "inRange100 (calculateLifestyleScore d)"
    using lifestyle_range [of d] by (auto simp: inRange100_Fin)
  ultimately show ?thesis by blast
qed

text \<open>
  C2. \<open>calculateACMScore\<close> has no failing path: the model has no error value because
  the source has no statement that can throw on a snapshot, and for every snapshot all
  five numeric fields of the result are integers, never \<open>NaN\<close> or an infinity. This
  holds at a height of 100 cm, where the ideal weight is zero and the division by it
  gives an infinity (the penalty of 20 applies), and below 100 cm, where the ideal
  weight is negative (no penalty). A block whose readings are absent leaves the score
  as it is.
\<close>

theorem calculateACMScore_total:
  "(\<exists>n c m a l :: int.
      overall (calculateACMScore d) = Fin (of_int n)
      \<and> breakdown (calculateACMScore d) =
          \<lparr>cardiovascular = Fin (of_int c), metabolic = Fin (of_int m),
           activity = Fin (of_int a), lifestyle = Fin (of_int l)\<rparr>)
   \<and> idealWeight zeroIdealWeightSnapshot = Fin 0
   \<and> calculateMetabolicScore zeroIdealWeightSnapshot = Fin 50
   \<and> jlt (idealWeight negativeIdealWeightSnapshot) (Fin 0)
   \<and> calculateMetabolicScore negativeIdealWeightSnapshot = Fin 70
   \<and> (restingHeartRate d = None \<longrightarrow> restingHeartRateBlock d s = s)
   \<and> (heartRate d = None \<or> restingHeartRate d = None \<longrightarrow> heartRateBlock d s = s)
   \<and> (bmi d = None \<and> (weight d = None \<or> height d = None) \<longrightarrow> bmiBlock d s = s)
   \<and> (weight d = None \<or> height d = None \<or> age d = None \<or> biologicalSex d = None
        \<longrightarrow> weightBlock d s = s)
   \<and> (stepCount d = None \<longrightarrow> stepBlock d s = s)
   \<and> (activeEnergyBurned d = None \<longrightarrow> energyBlock d s = s)
   \<and> (age d = None \<longrightarrow> ageBlock d s = s)"
proof -
  obtain n :: int where n: "overall (calculateACMScore d) = Fin (of_int n)"
    using overall_range by blast
  obtain c m a l :: int where b: "breakdown (calculateACMScore d) =
      \<lparr>cardiovascular = Fin (of_int c), metabolic = Fin (of_int m),
       activity = Fin (of_int a), lifestyle = Fin (of_int l)\<rparr>"
    using breakdown_range by blast
  have complete: "\<exists>n c m a l :: int.
      overall (calculateACMScore d) = Fin (of_int n)
      \<and> breakdown (calculateACMScore d) =
          \<lparr>cardiovascular = Fin (of_int c), metabolic = Fin (of_int m),
           activity = Fin (of_int a), lifestyle = Fin (of_int l)\<rparr>"
    using n b by blast
  have neg: "jlt (idealWeight negativeIdealWeightSnapshot) (Fin 0)"
    by (simp add: neg_ideal)
  show ?thesis
    using complete zero_ideal zero_ideal_metabolic neg neg_ideal_metabolic absent_skips [of d s]
    by blast
qed

theorem calculateACMScore_total_witness:
  "restingHeartRate emptySnapshot = None \<and> heartRate emptySnapshot = None
   \<and> bmi emptySnapshot = None \<and> weight emptySnapshot = None
   \<and> stepCount emptySnapshot = None \<and> activeEnergyBurned emptySnapshot = None
   \<and> age emptySnapshot = None
   \<and> restingHeartRateBlock emptySnapshot (Fin 100) = Fin 100
   \<and> heartRateBlock emptySnapshot (Fin 100) = Fin 100
   \<and> bmiBlock emptySnapshot (Fin 100) = Fin 100
   \<and> weightBlock emptySnapshot (Fin 100) = Fin 100
   \<and> stepBlock emptySnapshot (Fin 100) = Fin 100
   \<and> energyBlock emptySnapshot (Fin 100) = Fin 100
   \<and> ageBlock emptySnapshot (Fin 100) = Fin 100"
  using calculateACMScore_total [of emptySnapshot "Fin 100"]
  by (simp add: emptySnapshot_def)

text \<open>
  C3. On the empty snapshot each sub-score is 100, the overall score is 100, the risk
  tier is low and the recommendations are the two generic strings, in their order.
\<close>

theorem empty_snapshot_result:
  "calculateCardiovascularScore emptySnapshot = Fin 100
   \<and> calculateMetabolicScore emptySnapshot = Fin 100
   \<and> calculateActivityScore emptySnapshot = Fin 100
   \<and> calculateLifestyleScore emptySnapshot = Fin 100
   \<and> calculateACMScore emptySnapshot =
       \<lparr>overall = Fin 100,
        breakdown = \<lparr>cardiovascular = Fin 100, metabolic = Fin 100,
                     activity = Fin 100, lifestyle = Fin 100\<rparr>,
        riskLevel = Low,
        recommendations = [adviceKeepUp, adviceMonitorHealth]\<rparr>"
  using empty_sub empty_all by simp

text \<open>
  C4. The two BMI paths of the metabolic sub-scorer are not equivalent. The branch that
  reads \<open>bmi\<close> gives its bonus of 10 only up to 24.9, the branch that derives the BMI
  gives it in every case left by the three penalties, so a BMI between 24.9 and 25
  gets the bonus only when derived. At 200 cm and 99.8 kg the derived BMI is 24.95:
  with \<open>bmi\<close> absent the metabolic sub-score is 100, with \<open>bmi\<close> set to the derived
  value it is 90.
\<close>

theorem bmi_paths_differ_in_gap:
  "bmi bmiGapSnapshot = None
   \<and> weight bmiGapSnapshot = Some (Fin 99.8) \<and> height bmiGapSnapshot = Some (Fin 200)
   \<and> derivedBMI bmiGapSnapshot = Fin 24.95
   \<and> calculateMetabolicScore bmiGapSnapshot = Fin 100
   \<and> calculateMetabolicScore (bmiGapSnapshot\<lparr>bmi := Some (derivedBMI bmiGapSnapshot)\<rparr>) = Fin 90"
  using gap_derived gap_metabolic_derived gap_metabolic_direct
  by (simp add: bmiGapSnapshot_def emptySnapshot_def)

text \<open>
  C5. The top tiers of the activity sub-scorer are dead: with 12000 steps or more the
  step block adds 15, with a calorie ratio of 1.5 or more the energy block adds 15, and
  neither block ever adds 20 to a score. With 15000 steps and nothing else the score
  before the clamp is 115 and the activity sub-score is 100.
\<close>

theorem activity_high_tiers_unreachable:
  "(stepCount d = Some steps \<and> jge steps (Fin 12000)
      \<longrightarrow> stepBlock d score = jadd score (Fin 15))
   \<and> (activeEnergyBurned d = Some calories \<and> jge (calorieRatio d calories) (Fin 1.5)
      \<longrightarrow> energyBlock d score = jadd score (Fin 15))
   \<and> stepBlock d (Fin x) \<noteq> Fin (x + 20)
   \<and> energyBlock d (Fin x) \<noteq> Fin (x + 20)
   \<and> energyBlock steps15000Snapshot (stepBlock steps15000Snapshot (Fin 100)) = Fin 115
   \<and> calculateActivityScore steps15000Snapshot = Fin 100"
  using stepBlock_high [of d steps score] energyBlock_high [of d calories score]
    stepBlock_never_20 [of d x] energyBlock_never_20 [of d x] steps15000 steps15000_raw
  by blast

theorem activity_high_tiers_unreachable_witness:
  "stepCount highTierSnapshot = Some (Fin 15000) \<and> jge (Fin 15000) (Fin 12000)
   \<and> stepBlock highTierSnapshot (Fin 100) = Fin 115
   \<and> activeEnergyBurned highTierSnapshot = Some (Fin 600)
   \<and> calorieRatio highTierSnapshot (Fin 600) = Fin 2
   \<and> jge (calorieRatio highTierSnapshot (Fin 600)) (Fin 1.5)
   \<and> energyBlock highTierSnapshot (Fin 115) = Fin 130"
proof -
  have s: "stepCount highTierSnapshot = Some (Fin 15000)"
    by (simp add: highTierSnapshot_def emptySnapshot_def)
  have e: "activeEnergyBurned highTierSnapshot = Some (Fin 600)"
    by (simp add: highTierSnapshot_def emptySnapshot_def)
  have r: "calorieRatio highTierSnapshot (Fin 600) = Fin 2"
    by (simp add: calorieRatio_def targetCalories_def highTierSnapshot_def emptySnapshot_def)
  have g1: "jge (Fin 15000) (Fin 12000)" by (simp add: jge_def)
  have g2: "jge (calorieRatio highTierSnapshot (Fin 600)) (Fin 1.5)"
    by (simp add: r jge_def)
  show ?thesis
    using activity_high_tiers_unreachable [of highTierSnapshot "Fin 15000" "Fin 100" "Fin 600" 0]
      activity_high_tiers_unreachable [of highTierSnapshot "Fin 15000" "Fin 115" "Fin 600" 0]
      s e r g1 g2
    by simp
qed

text \<open>
  C6. The overall score is the rounded, clamped product of the weighted sum of the
  unrounded sub-scores (weights 0.35, 0.25, 0.25, 0.15) and the age multiplier of the
  specification; the breakdown holds each sub-score rounded on its own. The sub-scores
  being finite, the overall score is the same formula in real arithmetic.
\<close>

theorem aggregation_pipeline:
  "overall (calculateACMScore d) =
     jround (clamp100 (jmul
       (jadd (jadd (jadd (jmul (calculateCardiovascularScore d) (Fin 0.35))
                         (jmul (calculateMetabolicScore d) (Fin 0.25)))
                   (jmul (calculateActivityScore d) (Fin 0.25)))
             (jmul (calculateLifestyleScore d) (Fin 0.15)))
       (Fin (specAgeMultiplier (age d)))))
   \<and> breakdown (calculateACMScore d) =
       \<lparr>cardiovascular = jround (calculateCardiovascularScore d),
        metabolic = jround (calculateMetabolicScore d),
        activity = jround (calculateActivityScore d),
        lifestyle = jround (calculateLifestyleScore d)\<rparr>
   \<and> (\<exists>c m a l.
         calculateCardiovascularScore d = Fin c \<and> calculateMetabolicScore d = Fin m
         \<and> calculateActivityScore d = Fin a \<and> calculateLifestyleScore d = Fin l
         \<and> overall (calculateACMScore d) =
             Fin (of_int \<lfloor>max 0 (min 100 ((c * 0.35 + m * 0.25 + a * 0.25 + l * 0.15)
                                            * specAgeMultiplier (age d))) + 1 / 2\<rfloor>))"
proof -
  have ov: "overall (calculateACMScore d) =
     jround (clamp100 (jmul (weightedScore d) (Fin (specAgeMultiplier (age d)))))"
    by (simp add: calculateACMScore_def Let_def demographic_as_multiplier)
  have bd: "breakdown (calculateACMScore d) = roundedBreakdown d"
    by (simp add: calculateACMScore_def Let_def)
  obtain c where c: "calculateCardiovascularScore d = Fin c"
    using cardiovascular_range by blast
  obtain m where m: "calculateMetabolicScore d = Fin m"
    using metabolic_range by blast
  obtain a where a: "calculateActivityScore d = Fin a"
    using activity_range by blast
  obtain l where l: "calculateLifestyleScore d = Fin l"
    using lifestyle_range by blast
  have "overall (calculateACMScore d) =
      Fin (of_int \<lfloor>max 0 (min 100 ((c * 0.35 + m * 0.25 + a * 0.25 + l * 0.15)
                                     * specAgeMultiplier (age d))) + 1 / 2\<rfloor>)"
    by (simp add: ov weightedScore_def c m a l clamp100_Fin)
  then have ex: "\<exists>c m a l.
         calculateCardiovascularScore d = Fin c \<and> calculateMetabolicScore d = Fin m
         \<and> calculateActivityScore d = Fin a \<and> calculateLifestyleScore d = Fin l
         \<and> overall (calculateACMScore d) =
             Fin (of_int \<lfloor>max 0 (min 100 ((c * 0.35 + m * 0.25 + a * 0.25 + l * 0.15)
                                            * specAgeMultiplier (age d))) + 1 / 2\<rfloor>)"
    using c m a l by blast
  show ?thesis
    using ov bd ex unfolding weightedScore_def roundedBreakdown_def by blast
qed

text \<open>
  C7. For every integer score, \<open>determineRiskLevel\<close> gives low from 85, moderate from
  70 to 84, high from 50 to 69 and very high under 50, with the six boundary values of
  the specification; \<open>getScoreColor\<close> gives every score, integer or not, the colour of
  the tier \<open>determineRiskLevel\<close> gives it, and the tiers have four different colours.
\<close>

theorem risk_tiers_and_colors:
  "(85 \<le> s \<longrightarrow> determineRiskLevel (Fin (of_int s)) = Low)
   \<and> (70 \<le> s \<and> s < 85 \<longrightarrow> determineRiskLevel (Fin (of_int s)) = Moderate)
   \<and> (50 \<le> s \<and> s < 70 \<longrightarrow> determineRiskLevel (Fin (of_int s)) = High)
   \<and> (s < 50 \<longrightarrow> determineRiskLevel (Fin (of_int s)) = VeryHigh)
   \<and> determineRiskLevel (Fin 85) = Low
   \<and> determineRiskLevel (Fin 84) = Moderate
   \<and> determineRiskLevel (Fin 70) = Moderate
   \<and> determineRiskLevel (Fin 69) = High
   \<and> determineRiskLevel (Fin 50) = High
   \<and> determineRiskLevel (Fin 49) = VeryHigh
   \<and> getScoreColor x = tierColor (determineRiskLevel x)
   \<and> inj tierColor"
proof -
  have "determineRiskLevel (Fin 85) = Low" "determineRiskLevel (Fin 84) = Moderate"
    "determineRiskLevel (Fin 70) = Moderate" "determineRiskLevel (Fin 69) = High"
    "determineRiskLevel (Fin 50) = High" "determineRiskLevel (Fin 49) = VeryHigh"
    by (simp_all add: determineRiskLevel_def jge_def)
  then show ?thesis
    using color_of_tier [of x] tierColor_inj by (simp add: determineRiskLevel_int)
qed

theorem risk_tiers_and_colors_witness:
  "determineRiskLevel (Fin 90) = Low \<and> getScoreColor (Fin 90) = ''#10B981''
   \<and> determineRiskLevel (Fin 75) = Moderate \<and> getScoreColor (Fin 75) = ''#F59E0B''
   \<and> determineRiskLevel (Fin 60) = High \<and> getScoreColor (Fin 60) = ''#EF4444''
   \<and> determineRiskLevel (Fin 40) = VeryHigh \<and> getScoreColor (Fin 40) = ''#DC2626''"
  using risk_tiers_and_colors [of 90 "Fin 90"] risk_tiers_and_colors [of 75 "Fin 75"]
    risk_tiers_and_colors [of 60 "Fin 60"] risk_tiers_and_colors [of 40 "Fin 40"]
  by simp

text \<open>
  C8. \<open>generateRecommendations\<close> returns the first four entries of the list made of
  the cardiovascular, metabolic, activity and lifestyle tips, in this order, or of the
  two generic strings when there is no tip. A dimension at 70 or more gives no tip; a
  dimension under 70 gives its fixed string, preceded by the data-specific one when
  the resting heart rate is over 80, the BMI over 25, or the step count under 7000;
  lifestyle gives its two strings. The ten strings are pairwise different, and the
  result is a function of the snapshot and the breakdown.
\<close>

theorem recommendations_order_and_truncation:
  "generateRecommendations d b = specRecommendations d b
   \<and> specRecommendations d b =
       take 4 (if specCardiovascularTips d b @ specMetabolicTips d b
                    @ specActivityTips d b @ specLifestyleTips b = []
               then [adviceKeepUp, adviceMonitorHealth]
               else specCardiovascularTips d b @ specMetabolicTips d b
                    @ specActivityTips d b @ specLifestyleTips b)
   \<and> length (generateRecommendations d b) \<le> 4
   \<and> (jlt (cardiovascular b) (Fin 70) \<longrightarrow>
         specCardiovascularTips d b =
           (if readingAbove (restingHeartRate d) 80 then [adviceAerobic, adviceMonitorHeart]
            else [adviceMonitorHeart]))
   \<and> (jlt (metabolic b) (Fin 70) \<longrightarrow>
         specMetabolicTips d b =
           (if readingAbove (bmi d) 25 then [adviceWeight, adviceDiet] else [adviceDiet]))
   \<and> (jlt (activity b) (Fin 70) \<longrightarrow>
         specActivityTips d b =
           (if readingBelow (stepCount d) 7000 then [adviceSteps, adviceStrength]
            else [adviceStrength]))
   \<and> (jlt (lifestyle b) (Fin 70) \<longrightarrow> specLifestyleTips b = [adviceSleep, adviceStress])
   \<and> (\<not> jlt (cardiovascular b) (Fin 70) \<longrightarrow> specCardiovascularTips d b = [])
   \<and> (\<not> jlt (metabolic b) (Fin 70) \<longrightarrow> specMetabolicTips d b = [])
   \<and> (\<not> jlt (activity b) (Fin 70) \<longrightarrow> specActivityTips d b = [])
   \<and> (\<not> jlt (lifestyle b) (Fin 70) \<longrightarrow> specLifestyleTips b = [])
   \<and> distinct [adviceAerobic, adviceMonitorHeart, adviceWeight, adviceDiet, adviceSteps,
               adviceStrength, adviceSleep, adviceStress, adviceKeepUp, adviceMonitorHealth]"
proof -
  have "specRecommendations d b =
       take 4 (if specCardiovascularTips d b @ specMetabolicTips d b
                    @ specActivityTips d b @ specLifestyleTips b = []
               then [adviceKeepUp, adviceMonitorHealth]
               else specCardiovascularTips d b @ specMetabolicTips d b
                    @ specActivityTips d b @ specLifestyleTips b)"
    by (simp add: specRecommendations_def Let_def)
  moreover have "jlt (cardiovascular b) (Fin 70) \<longrightarrow>
         specCardiovascularTips d b =
           (if readingAbove (restingHeartRate d) 80 then [adviceAerobic, adviceMonitorHeart]
            else [adviceMonitorHeart])"
    by (simp add: specCardiovascularTips_def)
  moreover have "jlt (metabolic b) (Fin 70) \<longrightarrow>
         specMetabolicTips d b =
           (if readingAbove (bmi d) 25 then [adviceWeight, adviceDiet] else [adviceDiet])"
    by (simp add: specMetabolicTips_def)
  moreover have "jlt (activity b) (Fin 70) \<longrightarrow>
         specActivityTips d b =
           (if readingBelow (stepCount d) 7000 then [adviceSteps, adviceStrength]
            else [adviceStrength])"
    by (simp add: specActivityTips_def)
  moreover have "jlt (lifestyle b) (Fin 70) \<longrightarrow> specLifestyleTips b = [adviceSleep, adviceStress]"
    by (simp add: specLifestyleTips_def)
  ultimately show ?thesis
    using generateRecommendations_spec [of d b] recommendations_length [of d b]
      tips_empty advice_distinct
    by blast
qed

theorem recommendations_order_and_truncation_witness:
  "jlt (cardiovascular lowBreakdown) (Fin 70) \<and> jlt (metabolic lowBreakdown) (Fin 70)
   \<and> jlt (activity lowBreakdown) (Fin 70) \<and> jlt (lifestyle lowBreakdown) (Fin 70)
   \<and> generateRecommendations sedentarySnapshot lowBreakdown =
       [adviceAerobic, adviceMonitorHeart, adviceWeight, adviceDiet]
   \<and> \<not> jlt (cardiovascular highBreakdown) (Fin 70) \<and> \<not> jlt (metabolic highBreakdown) (Fin 70)
   \<and> \<not> jlt (activity highBreakdown) (Fin 70) \<and> \<not> jlt (lifestyle highBreakdown) (Fin 70)
   \<and> generateRecommendations sedentarySnapshot highBreakdown =
       [adviceKeepUp, adviceMonitorHealth]"
proof -
  have a: "readingAbove (restingHeartRate sedentarySnapshot) 80" "readingAbove (bmi sedentarySnapshot) 25"
    "readingBelow (stepCount sedentarySnapshot) 7000"
    by (simp_all add: sedentarySnapshot_def emptySnapshot_def readingAbove_def readingBelow_def jgt_def)
  have l: "jlt (cardiovascular lowBreakdown) (Fin 70)" "jlt (metabolic lowBreakdown) (Fin 70)"
    "jlt (activity lowBreakdown) (Fin 70)" "jlt (lifestyle lowBreakdown) (Fin 70)"
    by (simp_all add: lowBreakdown_def)
  have h: "\<not> jlt (cardiovascular highBreakdown) (Fin 70)" "\<not> jlt (metabolic highBreakdown) (Fin 70)"
    "\<not> jlt (activity highBreakdown) (Fin 70)" "\<not> jlt (lifestyle highBreakdown) (Fin 70)"
    by (simp_all add: highBreakdown_def)
  show ?thesis
    using recommendations_order_and_truncation [of sedentarySnapshot lowBreakdown]
      recommendations_order_and_truncation [of sedentarySnapshot highBreakdown] a l h
    by simp
qed

text \<open>
  C9. The list of recommendations is never empty: it has between one and four
  strings. The block of every dimension under 70 pushes at least one string, and when
  no dimension is under 70 the list is the two generic strings.
\<close>

theorem recommendations_never_empty:
  "1 \<le> length (generateRecommendations d b)
   \<and> length (generateRecommendations d b) \<le> 4
   \<and> (jlt (cardiovascular b) (Fin 70)
        \<longrightarrow> length recs < length (cardiovascularAdvice d b recs))
   \<and> (jlt (metabolic b) (Fin 70) \<longrightarrow> length recs < length (metabolicAdvice d b recs))
   \<and> (jlt (activity b) (Fin 70) \<longrightarrow> length recs < length (activityAdvice d b recs))
   \<and> (jlt (lifestyle b) (Fin 70) \<longrightarrow> length recs < length (lifestyleAdvice b recs))
   \<and> (\<not> jlt (cardiovascular b) (Fin 70) \<and> \<not> jlt (metabolic b) (Fin 70)
        \<and> \<not> jlt (activity b) (Fin 70) \<and> \<not> jlt (lifestyle b) (Fin 70)
       \<longrightarrow> generateRecommendations d b = [adviceKeepUp, adviceMonitorHealth])"
  using recommendations_length [of d b] recommendations_fallback [of b d]
    advice_blocks_push
  by blast

theorem recommendations_never_empty_witness:
  "\<not> jlt (cardiovascular highBreakdown) (Fin 70) \<and> \<not> jlt (metabolic highBreakdown) (Fin 70)
   \<and> \<not> jlt (activity highBreakdown) (Fin 70) \<and> \<not> jlt (lifestyle highBreakdown) (Fin 70)
   \<and> generateRecommendations emptySnapshot highBreakdown = [adviceKeepUp, adviceMonitorHealth]
   \<and> length (generateRecommendations emptySnapshot highBreakdown) = 2
   \<and> jlt (cardiovascular lowBreakdown) (Fin 70) \<and> jlt (metabolic lowBreakdown) (Fin 70)
   \<and> jlt (activity lowBreakdown) (Fin 70) \<and> jlt (lifestyle lowBreakdown) (Fin 70)
   \<and> 0 < length (cardiovascularAdvice emptySnapshot lowBreakdown [])
   \<and> 0 < length (metabolicAdvice emptySnapshot lowBreakdown [])
   \<and> 0 < length (activityAdvice emptySnapshot lowBreakdown [])
   \<and> 0 < length (lifestyleAdvice lowBreakdown [])
   \<and> 1 \<le> length (generateRecommendations emptySnapshot lowBreakdown)
   \<and> length (generateRecommendations emptySnapshot lowBreakdown) \<le> 4"
proof -
  have l: "jlt (cardiovascular lowBreakdown) (Fin 70)" "jlt (metabolic lowBreakdown) (Fin 70)"
    "jlt (activity lowBreakdown) (Fin 70)" "jlt (lifestyle lowBreakdown) (Fin 70)"
    by (simp_all add: lowBreakdown_def)
  have h: "\<not> jlt (cardiovascular highBreakdown) (Fin 70)" "\<not> jlt (metabolic highBreakdown) (Fin 70)"
    "\<not> jlt (activity highBreakdown) (Fin 70)" "\<not> jlt (lifestyle highBreakdown) (Fin 70)"
    by (simp_all add: highBreakdown_def)
  show ?thesis
    using recommendations_never_empty [of emptySnapshot highBreakdown "[]"]
      recommendations_never_empty [of emptySnapshot lowBreakdown "[]"] l h
    by simp
qed

text \<open>
  C10. A resting heart rate, a heart rate or a BMI of zero gives the same result as
  an absent one, for every snapshot (a BMI of zero falls through to the branch of
  weight and height). A step count or an active energy of zero is scored: alone, zero
  steps give an activity of 60 and zero active energy an activity of 70, where the
  absent reading gives 100.
\<close>

theorem zero_readings_asymmetry:
  "calculateACMScore (d\<lparr>restingHeartRate := Some (Fin 0)\<rparr>)
     = calculateACMScore (d\<lparr>restingHeartRate := None\<rparr>)
   \<and> calculateACMScore (d\<lparr>heartRate := Some (Fin 0)\<rparr>)
     = calculateACMScore (d\<lparr>heartRate := None\<rparr>)
   \<and> calculateACMScore (d\<lparr>bmi := Some (Fin 0)\<rparr>) = calculateACMScore (d\<lparr>bmi := None\<rparr>)
   \<and> bmiBlock (d\<lparr>bmi := Some (Fin 0)\<rparr>) s = bmiBlock (d\<lparr>bmi := None\<rparr>) s
   \<and> calculateActivityScore (emptySnapshot\<lparr>stepCount := Some (Fin 0)\<rparr>) = Fin 60
   \<and> activity (breakdown (calculateACMScore (emptySnapshot\<lparr>stepCount := Some (Fin 0)\<rparr>)))
       = Fin 60
   \<and> calculateActivityScore (emptySnapshot\<lparr>activeEnergyBurned := Some (Fin 0)\<rparr>) = Fin 70
   \<and> activity (breakdown
         (calculateACMScore (emptySnapshot\<lparr>activeEnergyBurned := Some (Fin 0)\<rparr>))) = Fin 70
   \<and> activity (breakdown (calculateACMScore emptySnapshot)) = Fin 100"
  using zero_restingHeartRate [of d] zero_heartRate [of d] zero_bmi [of d] zero_bmi_block [of d s]
    zero_steps zero_energy null_activity
  by simp

end
